theory Spec2Isabelle
  imports Main "HOL-Library.Sublist"
begin

section \<open>The schedule store (src/services/database.js)\<close>

text \<open>
  The rows follow the \<^verbatim>\<open>schedule\<close> and \<^verbatim>\<open>birthdays\<close> tables of the SQL schema shipped
  with the repository. Identifiers (UUIDs) are natural numbers, timestamps are
  milliseconds since the epoch, strings are lists of bytes (UTF-8), and a nullable
  column is an \<open>option\<close>. The \<^verbatim>\<open>CHECK\<close> constraint of the \<^verbatim>\<open>status\<close> column admits
  exactly three values.
\<close>

datatype status = Pending | Sent | Failed

record schedule_row =
  row_id :: nat
  batch_id :: "string option"
  recipient :: string
  caption :: "string option"
  media_url :: "string option"
  media_type :: "string option"
  send_at :: int
  status :: status
  error :: "string option"
  retry_count :: int
  sent_at :: "int option"
  created_at :: int

text \<open>The argument objects of \<^verbatim>\<open>addScheduleItems\<close> (camel-case keys in the source).\<close>

record schedule_item =
  batchId :: string
  item_recipient :: string
  item_caption :: "string option"
  mediaUrl :: "string option"
  mediaType :: "string option"
  sendAt :: int

text \<open>
  A birthday row. The \<^verbatim>\<open>DATE\<close> column is a civil date (year, month, day); the \<^verbatim>\<open>CHECK\<close>
  constraints on gender and relationship are not relied on, both stay text.
\<close>

record birthday_row =
  name :: string
  phone :: string
  birthday :: "int \<times> nat \<times> nat"
  gender :: "string option"
  relationship :: "string option"
  custom_message :: "string option"

text \<open>
  The module state of \<^verbatim>\<open>database.js\<close>: \<open>isSupabaseConfigured\<close> says whether the
  client \<^verbatim>\<open>supabase\<close> was created (it is \<^verbatim>\<open>null\<close> otherwise); \<open>request_error\<close> is the
  \<^verbatim>\<open>error\<close> member of the responses of the hosted service (\<open>None\<close> when requests
  succeed); \<open>next_id\<close> is the identifier the service gives to the next inserted row.
\<close>

record database =
  isSupabaseConfigured :: bool
  request_error :: "string option"
  schedule :: "schedule_row list"
  birthdays :: "birthday_row list"
  next_id :: nat

text \<open>JavaScript truthiness of a nullable string: neither \<^verbatim>\<open>null\<close> nor empty.\<close>

fun truthy :: "string option \<Rightarrow> bool" where
  "truthy None = False"
| "truthy (Some s) = (s \<noteq> [])"

text \<open>\<^verbatim>\<open>x || null\<close> on a nullable string.\<close>

definition or_null :: "string option \<Rightarrow> string option" where
  "or_null x = (if truthy x then x else None)"

text \<open>\<^verbatim>\<open>supabase.from('schedule').select('*')\<close> with a row filter: the \<^verbatim>\<open>{data, error}\<close> response.\<close>

definition select_schedule :: "database \<Rightarrow> (schedule_row \<Rightarrow> bool) \<Rightarrow> string + schedule_row list" where
  "select_schedule d P =
     (case request_error d of
        Some e \<Rightarrow> Inl e
      | None \<Rightarrow> Inr (filter P (schedule d)))"

definition getPendingSchedule :: "database \<Rightarrow> schedule_row list \<times> database" where
  "getPendingSchedule d =
     (if \<not> isSupabaseConfigured d then ([], d)
      else case select_schedule d (\<lambda>r. status r = Pending) of
             Inl e \<Rightarrow> ([], d)
           | Inr data \<Rightarrow> (sort_key send_at data, d))"

definition insert_row :: "int \<Rightarrow> nat \<Rightarrow> schedule_item \<Rightarrow> schedule_row" where
  "insert_row now i item =
     \<lparr> row_id = i,
       batch_id = Some (batchId item),
       recipient = item_recipient item,
       caption = or_null (item_caption item),
       media_url = or_null (mediaUrl item),
       media_type = or_null (mediaType item),
       send_at = sendAt item,
       status = Pending,
       error = None,
       retry_count = 0,
       sent_at = None,
       created_at = now \<rparr>"

definition addScheduleItems :: "database \<Rightarrow> int \<Rightarrow> schedule_item list \<Rightarrow> schedule_row list \<times> database" where
  "addScheduleItems d now items =
     (if \<not> isSupabaseConfigured d then ([], d)
      else case request_error d of
             Some e \<Rightarrow> ([], d)
           | None \<Rightarrow>
               (let rows = map (\<lambda>(k, item). insert_row now (next_id d + k) item)
                               (zip [0 ..< length items] items)
                in (rows, d\<lparr> schedule := schedule d @ rows,
                             next_id := next_id d + length items \<rparr>)))"

text \<open>
  \<^verbatim>\<open>updateScheduleStatus(id, status, error = null, sentAt = null)\<close>: the update object
  always holds the status; it holds \<^verbatim>\<open>error\<close> and \<^verbatim>\<open>sent_at\<close> only when the argument is
  truthy. The time stamp argument is an ISO string in the source, which is never empty.
\<close>

definition apply_updates :: "status \<Rightarrow> string option \<Rightarrow> int option \<Rightarrow> schedule_row \<Rightarrow> schedule_row" where
  "apply_updates st err sentAt r =
     (let r1 = r\<lparr> status := st \<rparr>;
          r2 = (if truthy err then r1\<lparr> error := err \<rparr> else r1)
      in case sentAt of
           None \<Rightarrow> r2
         | Some t \<Rightarrow> r2\<lparr> sent_at := Some t \<rparr>)"

definition updateScheduleStatus ::
  "database \<Rightarrow> nat \<Rightarrow> status \<Rightarrow> string option \<Rightarrow> int option \<Rightarrow> bool \<times> database" where
  "updateScheduleStatus d i st err sentAt =
     (if \<not> isSupabaseConfigured d then (False, d)
      else case request_error d of
             Some e \<Rightarrow> (False, d)
           | None \<Rightarrow>
               (True, d\<lparr> schedule :=
                          map (\<lambda>r. if row_id r = i then apply_updates st err sentAt r else r)
                              (schedule d) \<rparr>))"

text \<open>\<^verbatim>\<open>getDueScheduleItems\<close>; \<open>now\<close> is the reading of \<^verbatim>\<open>new Date()\<close>.\<close>

definition getDueScheduleItems :: "database \<Rightarrow> int \<Rightarrow> schedule_row list \<times> database" where
  "getDueScheduleItems d now =
     (if \<not> isSupabaseConfigured d then ([], d)
      else case select_schedule d (\<lambda>r. status r = Pending \<and> send_at r \<le> now) of
             Inl e \<Rightarrow> ([], d)
           | Inr data \<Rightarrow> (data, d))"

section \<open>Strings, paths and files\<close>

text \<open>
  The string operations of the source that the worker and the sweep use. Strings are
  byte lists, so the tests below on ASCII patterns agree with the source's tests on
  UTF-16 code units: no byte of a multi-byte character is an ASCII character.
\<close>

definition toLowerChar :: "char \<Rightarrow> char" where
  "toLowerChar c =
     (case map_of (zip ''ABCDEFGHIJKLMNOPQRSTUVWXYZ'' ''abcdefghijklmnopqrstuvwxyz'') c of
        Some l \<Rightarrow> l
      | None \<Rightarrow> c)"

definition toLowerCase :: "string \<Rightarrow> string" where
  "toLowerCase s = map toLowerChar s"

definition startsWith :: "string \<Rightarrow> string \<Rightarrow> bool" where
  "startsWith s p = (take (length p) s = p)"

text \<open>\<^verbatim>\<open>s.includes(p)\<close>: \<open>p\<close> occurs in \<open>s\<close> as a contiguous substring.\<close>

fun str_includes :: "string \<Rightarrow> string \<Rightarrow> bool" where
  "str_includes [] p = (p = [])"
| "str_includes (c # s) p = (startsWith (c # s) p \<or> str_includes s p)"

text \<open>The character class \<^verbatim>\<open>\d\<close> of a JavaScript regular expression: the ten ASCII digits.\<close>

definition is_digit :: "char \<Rightarrow> bool" where
  "is_digit c = (c \<in> set ''0123456789'')"

text \<open>\<^verbatim>\<open>/^https?:\/\//i.test(s)\<close> and \<^verbatim>\<open>/^https?:/i.test(s)\<close>.\<close>

definition test_http_slashes :: "string \<Rightarrow> bool" where
  "test_http_slashes s =
     (startsWith (toLowerCase s) ''http://'' \<or> startsWith (toLowerCase s) ''https://'')"

definition test_http_colon :: "string \<Rightarrow> bool" where
  "test_http_colon s =
     (startsWith (toLowerCase s) ''http:'' \<or> startsWith (toLowerCase s) ''https:'')"

text \<open>\<^verbatim>\<open>s.split(c)\<close> and \<^verbatim>\<open>parts.join(c)\<close> for a one-character separator.\<close>

fun split_on :: "char \<Rightarrow> string \<Rightarrow> string list" where
  "split_on c [] = [[]]"
| "split_on c (x # xs) =
     (if x = c then [] # split_on c xs
      else (case split_on c xs of
              [] \<Rightarrow> [[x]]
            | w # ws \<Rightarrow> (x # w) # ws))"

fun join_with :: "char \<Rightarrow> string list \<Rightarrow> string" where
  "join_with c [] = []"
| "join_with c [p] = p"
| "join_with c (p # q # ps) = p @ c # join_with c (q # ps)"

text \<open>
  Node's \<^verbatim>\<open>path\<close> module on POSIX (the image of the Dockerfile is Linux, so
  \<^verbatim>\<open>path.sep\<close> is the slash). \<open>normalizeString\<close> walks the segments of a path with
  the stack of segments kept so far (innermost first): empty segments and \<^verbatim>\<open>.\<close> are
  dropped, \<^verbatim>\<open>..\<close> removes the last kept segment, and is itself kept only in a relative
  path that has nothing left to remove.
\<close>

fun normalizeSegment :: "bool \<Rightarrow> string list \<Rightarrow> string \<Rightarrow> string list" where
  "normalizeSegment allowAboveRoot acc seg =
     (if seg = [] \<or> seg = ''.'' then acc
      else if seg = ''..'' then
        (case acc of
           [] \<Rightarrow> if allowAboveRoot then [''..''] else []
         | t # ts \<Rightarrow> if t = ''..'' then ''..'' # t # ts else ts)
      else seg # acc)"

definition normalizeString :: "string \<Rightarrow> bool \<Rightarrow> string" where
  "normalizeString p allowAboveRoot =
     join_with CHR ''/'' (rev (foldl (normalizeSegment allowAboveRoot) [] (split_on CHR ''/'' p)))"

definition path_normalize :: "string \<Rightarrow> string" where
  "path_normalize p =
     (if p = [] then ''.''
      else
        (let isAbsolute = (hd p = CHR ''/'');
             trailingSeparator = (last p = CHR ''/'');
             q = normalizeString p (\<not> isAbsolute)
         in if q = [] then
              (if isAbsolute then ''/'' else if trailingSeparator then ''./'' else ''.'')
            else
              (let q' = (if trailingSeparator then q @ ''/'' else q)
               in if isAbsolute then CHR ''/'' # q' else q')))"

definition path_join :: "string list \<Rightarrow> string" where
  "path_join args =
     (let joined = join_with CHR ''/'' (filter (\<lambda>a. a \<noteq> []) args)
      in if joined = [] then ''.'' else path_normalize joined)"

text \<open>\<^verbatim>\<open>path.basename(p)\<close>: the last segment, trailing slashes ignored.\<close>

definition path_basename :: "string \<Rightarrow> string" where
  "path_basename p = last (split_on CHR ''/'' (rev (dropWhile (\<lambda>c. c = CHR ''/'') (rev p))))"

text \<open>
  The module lives in \<^verbatim>\<open>src/services\<close> below the \<^verbatim>\<open>WORKDIR /app\<close> of the Dockerfile.
\<close>

definition dirname :: string where
  "dirname = ''/app/src/services''"

definition PUBLIC_DIR :: string where
  "PUBLIC_DIR = path_join [dirname, ''..'', ''..'', ''public'']"

definition UPLOADS_DIR :: string where
  "UPLOADS_DIR = path_join [PUBLIC_DIR, ''uploads'']"

text \<open>
  The file system: an association list from absolute paths to entries, read with
  \<open>map_of\<close>. A regular file has a modification time (\<^verbatim>\<open>mtimeMs\<close>) and its bytes; a
  directory has a modification time. \<open>Protected\<close> is a regular file that cannot be
  removed (\<^verbatim>\<open>unlink\<close> rejects with \<^verbatim>\<open>EPERM\<close>, as for an immutable file);
  \<open>DanglingLink\<close> is a symbolic link whose target is missing: \<^verbatim>\<open>readdir\<close> lists it,
  \<^verbatim>\<open>unlink\<close> removes it, and \<^verbatim>\<open>access\<close>, \<^verbatim>\<open>readFile\<close> and \<^verbatim>\<open>stat\<close>, which follow the
  link, reject with \<^verbatim>\<open>ENOENT\<close>. The operations of \<^verbatim>\<open>fs/promises\<close> reject with an error
  where the model returns \<open>Inl\<close> or \<open>False\<close>.
\<close>

datatype fs_entry = File int string | Directory int | Protected int string | DanglingLink

type_synonym filesystem = "(string \<times> fs_entry) list"

definition fsp_access :: "filesystem \<Rightarrow> string \<Rightarrow> bool" where
  "fsp_access f p =
     (case map_of f p of
        None \<Rightarrow> False
      | Some (File _ _) \<Rightarrow> True
      | Some (Directory _) \<Rightarrow> True
      | Some (Protected _ _) \<Rightarrow> True
      | Some DanglingLink \<Rightarrow> False)"

definition fsp_readFile :: "filesystem \<Rightarrow> string \<Rightarrow> string + string" where
  "fsp_readFile f p =
     (case map_of f p of
        None \<Rightarrow> Inl ''ENOENT''
      | Some (File _ buf) \<Rightarrow> Inr buf
      | Some (Directory _) \<Rightarrow> Inl ''EISDIR''
      | Some (Protected _ buf) \<Rightarrow> Inr buf
      | Some DanglingLink \<Rightarrow> Inl ''ENOENT'')"

definition fsp_stat :: "filesystem \<Rightarrow> string \<Rightarrow> string + int" where
  "fsp_stat f p =
     (case map_of f p of
        None \<Rightarrow> Inl ''ENOENT''
      | Some (File mtime _) \<Rightarrow> Inr mtime
      | Some (Directory mtime) \<Rightarrow> Inr mtime
      | Some (Protected mtime _) \<Rightarrow> Inr mtime
      | Some DanglingLink \<Rightarrow> Inl ''ENOENT'')"

definition fsp_unlink :: "filesystem \<Rightarrow> string \<Rightarrow> string + filesystem" where
  "fsp_unlink f p =
     (case map_of f p of
        None \<Rightarrow> Inl ''ENOENT''
      | Some (File _ _) \<Rightarrow> Inr (filter (\<lambda>(q, _). q \<noteq> p) f)
      | Some (Directory _) \<Rightarrow> Inl ''EISDIR''
      | Some (Protected _ _) \<Rightarrow> Inl ''EPERM''
      | Some DanglingLink \<Rightarrow> Inr (filter (\<lambda>(q, _). q \<noteq> p) f))"

text \<open>
  A directory entry name: not empty, without a slash, and neither \<^verbatim>\<open>.\<close> nor \<^verbatim>\<open>..\<close>
  (which \<^verbatim>\<open>readdir\<close> never lists).
\<close>

definition entry_name :: "string \<Rightarrow> bool" where
  "entry_name n = (n \<noteq> [] \<and> CHR ''/'' \<notin> set n \<and> n \<noteq> ''.'' \<and> n \<noteq> ''..'')"

definition child_name :: "string \<Rightarrow> string \<Rightarrow> string option" where
  "child_name dir p =
     (if startsWith p (dir @ ''/'') \<and> entry_name (drop (length dir + 1) p)
      then Some (drop (length dir + 1) p) else None)"

definition fsp_readdir :: "filesystem \<Rightarrow> string \<Rightarrow> string + string list" where
  "fsp_readdir f dir =
     (case map_of f dir of
        Some (Directory _) \<Rightarrow> Inr (remdups (List.map_filter (\<lambda>(p, _). child_name dir p) f))
      | _ \<Rightarrow> Inl ''ENOTDIR'')"

section \<open>The delivery worker (processQueue)\<close>

text \<open>Decimal rendering of numbers, as string concatenation with a number gives it.\<close>

definition digit_char :: "nat \<Rightarrow> char" where
  "digit_char n = ''0123456789'' ! (n mod 10)"

fun show_nat :: "nat \<Rightarrow> string" where
  "show_nat n = (if n < 10 then [digit_char n] else show_nat (n div 10) @ [digit_char n])"

definition show_int :: "int \<Rightarrow> string" where
  "show_int i = (if i < 0 then CHR ''-'' # show_nat (nat (- i)) else show_nat (nat i))"

text \<open>
  What the worker hands to \<^verbatim>\<open>sock.sendMessage\<close>: the media content (a \<^verbatim>\<open>{url}\<close> object or
  the bytes read from disk) and the message object. \<open>Image\<close> and \<open>Video\<close> carry the
  optional caption; \<open>Audio\<close> carries the \<^verbatim>\<open>mimetype\<close> member (the item's media type,
  possibly \<^verbatim>\<open>null\<close>) and nothing else; \<open>Document\<close> carries the optional caption, the
  mimetype and the file name.
\<close>

datatype content = Url string | Buffer string

datatype payload =
    Text string
  | Image content "string option"
  | Video content "string option"
  | Audio content "string option"
  | Document content "string option" string string

datatype mediaCategory = image | video | audio | document

text \<open>
  The events given to \<^verbatim>\<open>io.emit\<close>: \<^verbatim>\<open>queue:item\<close> with id, status and error, the
  same with the time of the next retry, and \<^verbatim>\<open>queue:update\<close> with the queue size.
\<close>

datatype event =
    QueueItem nat status "string option"
  | QueueItemRetry nat status string "int option"
  | QueueUpdate nat

text \<open>
  What the run does not decide itself. \<open>connected e k\<close> is the value of
  \<^verbatim>\<open>sock && connectionStatus.connected\<close> when \<^verbatim>\<open>processedCount\<close> is \<open>k\<close> (0 at the
  entry of the run); \<open>sendMessage e k jid p\<close> is the outcome of the transport call
  made for the \<open>k\<close>-th item: \<open>None\<close> when it resolves, \<open>Some m\<close> when it rejects with a
  value whose description \<^verbatim>\<open>e?.message || String(e)\<close> is \<open>m\<close>. \<open>jidNormalizedUser\<close>
  and \<open>mime_lookup\<close> are functions of the libraries Baileys and mime-types;
  \<open>genAI\<close> is the text generator (\<open>None\<close> when no API key is set; the function
  returns \<open>None\<close> when the request fails); \<open>nanoid\<close> is the generated batch id.
\<close>

record env =
  connected :: "nat \<Rightarrow> bool"
  sendMessage :: "nat \<Rightarrow> string \<Rightarrow> payload \<Rightarrow> string option"
  jidNormalizedUser :: "string \<Rightarrow> string"
  mime_lookup :: "string \<Rightarrow> string option"
  genAI :: "(birthday_row \<Rightarrow> string \<Rightarrow> string option) option"
  nanoid :: string

text \<open>
  The state the functions of the module act on: the single-flight flag, the store, the
  file system, the clock (milliseconds), the calls made to \<^verbatim>\<open>sock.sendMessage\<close> (each
  with the id of the item it was made for, the jid and the message), and the emitted events.
\<close>

record world =
  sendingInProgress :: bool
  db :: database
  fs :: filesystem
  clock :: int
  transport_log :: "(nat \<times> string \<times> payload) list"
  events :: "event list"

text \<open>How one iteration of the loop ends: normally or by \<^verbatim>\<open>continue\<close>, by \<^verbatim>\<open>break\<close>,
  or by an exception that leaves the loop.\<close>

datatype outcome = Continue world | Break world | Throw string world

text \<open>\<^verbatim>\<open>isRetryableError\<close>: the twelve patterns, the first nine case-insensitive.\<close>

definition isRetryableError :: "string \<Rightarrow> bool" where
  "isRetryableError errorMessage =
     (list_ex (\<lambda>p. str_includes (toLowerCase errorMessage) p)
        [''timeout'', ''network'', ''connection'', ''etimedout'', ''econnreset'',
         ''enotfound'', ''socket hang up'', ''rate limit'', ''too many requests'']
      \<or> list_ex (\<lambda>p. str_includes errorMessage p) [''503'', ''502'', ''500''])"

text \<open>
  \<^verbatim>\<open>db.incrementRetryCount(item.id, 3)\<close>. The module \<^verbatim>\<open>database.js\<close> defines and
  exports no function of this name, so the member is \<^verbatim>\<open>undefined\<close> and the call throws
  a \<^verbatim>\<open>TypeError\<close>, whatever the arguments.
\<close>

record retry_result =
  shouldRetry :: bool
  retryCount :: int
  nextRetryAt :: "int option"

definition incrementRetryCount :: "database \<Rightarrow> nat \<Rightarrow> int \<Rightarrow> string + (retry_result \<times> database)" where
  "incrementRetryCount d i maxRetries = Inl ''db.incrementRetryCount is not a function''"

text \<open>The recipient: a group jid verbatim, or the digits of a phone number (\<open>None\<close> when
  fewer than ten remain).\<close>

definition resolve_jid :: "env \<Rightarrow> schedule_row \<Rightarrow> string option" where
  "resolve_jid e item =
     (if str_includes (recipient item) ''@g.us'' then Some (recipient item)
      else
        (let phone0 = filter is_digit (recipient item);
             phone1 = (if startsWith phone0 ''+'' then drop 1 phone0 else phone0)
         in if length phone1 < 10 then None
            else Some (jidNormalizedUser e (phone1 @ ''@s.whatsapp.net''))))"

definition hasMedia :: "schedule_row \<Rightarrow> bool" where
  "hasMedia item = truthy (media_url item)"

text \<open>\<^verbatim>\<open>localOrHttp\<close>, for an item with media: the URL itself, or the path below the
  public directory (one leading slash of the URL dropped).\<close>

definition localOrHttp :: "schedule_row \<Rightarrow> string" where
  "localOrHttp item =
     (let u = the (media_url item)
      in if test_http_slashes u then u
         else (let rel = (if startsWith u ''/'' then drop 1 u else u)
               in path_join [PUBLIC_DIR, rel]))"

definition categorize :: "string option \<Rightarrow> mediaCategory" where
  "categorize mediaType0 =
     (let mt = toLowerCase (case mediaType0 of None \<Rightarrow> [] | Some t \<Rightarrow> t)
      in if str_includes mt ''image'' then image
         else if str_includes mt ''video'' then video
         else if str_includes mt ''audio'' then audio
         else document)"

text \<open>The message object built for an item with media, from the loaded content.\<close>

definition media_message :: "env \<Rightarrow> schedule_row \<Rightarrow> content \<Rightarrow> payload" where
  "media_message e item c =
     (let messageOptions = or_null (caption item)
      in case categorize (media_type item) of
           image \<Rightarrow> Image c messageOptions
         | video \<Rightarrow> Video c messageOptions
         | audio \<Rightarrow> Audio c (media_type item)
         | document \<Rightarrow>
             Document c messageOptions
               (if truthy (media_type item) then the (media_type item)
                else case mime_lookup e (the (media_url item)) of
                       Some m \<Rightarrow> m
                     | None \<Rightarrow> ''application/octet-stream'')
               (path_basename (localOrHttp item)))"

text \<open>The content of the media: a URL object, or the bytes of the local file (\<open>None\<close>
  when \<^verbatim>\<open>access\<close> or \<^verbatim>\<open>readFile\<close> rejects).\<close>

definition load_content :: "filesystem \<Rightarrow> schedule_row \<Rightarrow> content option" where
  "load_content f item =
     (if test_http_colon (localOrHttp item) then Some (Url (localOrHttp item))
      else if \<not> fsp_access f (localOrHttp item) then None
      else case fsp_readFile f (localOrHttp item) of
             Inl err \<Rightarrow> None
           | Inr buf \<Rightarrow> Some (Buffer buf))"

text \<open>A terminal failure written by the loop body: the stored error and the error of
  the emitted event.\<close>

definition fail_item :: "schedule_row \<Rightarrow> string \<Rightarrow> string \<Rightarrow> world \<Rightarrow> world" where
  "fail_item item stored shown w =
     (let (ok, d) = updateScheduleStatus (db w) (row_id item) Failed (Some stored) None
      in w\<lparr> db := d, events := events w @ [QueueItem (row_id item) Failed (Some shown)] \<rparr>)"

text \<open>After a send that resolved: mark the item sent, delete the local media file (a
  failure to delete is only logged), and wait before the next item.\<close>

definition after_send :: "nat \<Rightarrow> nat \<Rightarrow> schedule_row \<Rightarrow> world \<Rightarrow> world" where
  "after_send dueCount processedCount item w =
     (let (ok, d) = updateScheduleStatus (db w) (row_id item) Sent None (Some (clock w));
          w1 = w\<lparr> db := d, events := events w @ [QueueItem (row_id item) Sent None] \<rparr>;
          w2 = (if hasMedia item \<and> \<not> test_http_colon (localOrHttp item) then
                  (case fsp_unlink (fs w1) (localOrHttp item) of
                     Inl err \<Rightarrow> w1
                   | Inr f \<Rightarrow> w1\<lparr> fs := f \<rparr>)
                else w1)
      in if processedCount < dueCount then w2\<lparr> clock := clock w2 + 1000 \<rparr> else w2)"

text \<open>The \<^verbatim>\<open>catch\<close> block of the loop body, entered with the description of what the
  send threw.\<close>

definition send_failed :: "schedule_row \<Rightarrow> string \<Rightarrow> world \<Rightarrow> outcome" where
  "send_failed item errorMessage w =
     (if isRetryableError errorMessage then
        (case incrementRetryCount (db w) (row_id item) 3 of
           Inl typeError \<Rightarrow> Throw typeError w
         | Inr (retryResult, d) \<Rightarrow>
             if shouldRetry retryResult then
               Continue (w\<lparr> db := d,
                             events := events w @
                               [QueueItemRetry (row_id item) Pending
                                  (''Retry '' @ show_int (retryCount retryResult) @ ''/3: '' @ errorMessage)
                                  (nextRetryAt retryResult)] \<rparr>)
             else
               Continue (fail_item item (''Max retries exceeded: '' @ errorMessage)
                                   (''Max retries exceeded: '' @ errorMessage) (w\<lparr> db := d \<rparr>)))
      else Continue (fail_item item errorMessage errorMessage w))"

definition dispatch :: "env \<Rightarrow> nat \<Rightarrow> nat \<Rightarrow> schedule_row \<Rightarrow> string \<Rightarrow> payload \<Rightarrow> world \<Rightarrow> outcome" where
  "dispatch e dueCount processedCount item jid p w =
     (let w1 = w\<lparr> transport_log := transport_log w @ [(row_id item, jid, p)] \<rparr>
      in case sendMessage e processedCount jid p of
           None \<Rightarrow> Continue (after_send dueCount processedCount item w1)
         | Some errorMessage \<Rightarrow> send_failed item errorMessage w1)"

text \<open>The body of the loop for one item; \<open>processedCount\<close> is already incremented.\<close>

definition process_item :: "env \<Rightarrow> nat \<Rightarrow> nat \<Rightarrow> schedule_row \<Rightarrow> world \<Rightarrow> outcome" where
  "process_item e dueCount processedCount item w =
     (if \<not> connected e processedCount then Break w
      else case resolve_jid e item of
             None \<Rightarrow>
               Continue (fail_item item ''Invalid phone number: too short'' ''Invalid phone number'' w)
           | Some jid \<Rightarrow>
               if hasMedia item then
                 (case load_content (fs w) item of
                    None \<Rightarrow> Continue (fail_item item ''Media file not found'' ''Media file not found'' w)
                  | Some c \<Rightarrow> dispatch e dueCount processedCount item jid (media_message e item c) w)
               else if truthy (caption item) then
                 dispatch e dueCount processedCount item jid (Text (the (caption item))) w
               else Continue (fail_item item ''No message content'' ''No message content'' w))"

text \<open>The \<^verbatim>\<open>for\<close> loop: the exception that left it, if any, and the state.\<close>

fun for_items :: "env \<Rightarrow> nat \<Rightarrow> nat \<Rightarrow> schedule_row list \<Rightarrow> world \<Rightarrow> string option \<times> world" where
  "for_items e dueCount processedCount [] w = (None, w)"
| "for_items e dueCount processedCount (item # rest) w =
     (case process_item e dueCount (Suc processedCount) item w of
        Continue w' \<Rightarrow> for_items e dueCount (Suc processedCount) rest w'
      | Break w' \<Rightarrow> (None, w')
      | Throw err w' \<Rightarrow> (Some err, w'))"

definition processQueue :: "env \<Rightarrow> world \<Rightarrow> world" where
  "processQueue e w =
     (if \<not> connected e 0 then w
      else if sendingInProgress w then w
      else if \<not> isSupabaseConfigured (db w) then w
      else
        (let w1 = w\<lparr> sendingInProgress := True \<rparr>;
             (dueItems, d) = getDueScheduleItems (db w1) (clock w1);
             w2 = (if dueItems = [] then w1
                   else case for_items e (length dueItems) 0 dueItems w1 of
                          (Some err, w') \<Rightarrow> w'
                        | (None, w') \<Rightarrow>
                            (let (allPending, d') = getPendingSchedule (db w')
                             in w'\<lparr> events := events w' @ [QueueUpdate (length allPending)] \<rparr>))
         in w2\<lparr> sendingInProgress := False \<rparr>))"

text \<open>
  The worlds a run passes through: the world in which the loop starts, with the flag
  set, and the world after each item. Between two of them the run awaits the transport,
  the store, the file system or the timer, and another call of the worker can begin.
  \<open>for_items_states\<close> follows \<open>for_items\<close> step by step and keeps every world;
  \<open>processQueue_states\<close> does so for a run of \<open>processQueue\<close> (no world when the
  call returns at one of its three guards).
\<close>

fun for_items_states :: "env \<Rightarrow> nat \<Rightarrow> nat \<Rightarrow> schedule_row list \<Rightarrow> world \<Rightarrow> world list" where
  "for_items_states e dueCount processedCount [] w = [w]"
| "for_items_states e dueCount processedCount (item # rest) w =
     w # (case process_item e dueCount (Suc processedCount) item w of
            Continue w' \<Rightarrow> for_items_states e dueCount (Suc processedCount) rest w'
          | Break w' \<Rightarrow> [w']
          | Throw err w' \<Rightarrow> [w'])"

definition processQueue_states :: "env \<Rightarrow> world \<Rightarrow> world list" where
  "processQueue_states e w =
     (if \<not> connected e 0 then []
      else if sendingInProgress w then []
      else if \<not> isSupabaseConfigured (db w) then []
      else
        (let w1 = w\<lparr> sendingInProgress := True \<rparr>;
             (dueItems, d) = getDueScheduleItems (db w1) (clock w1)
         in for_items_states e (length dueItems) 0 dueItems w1))"

section \<open>The media sweep (cleanupOldMediaFiles)\<close>

text \<open>The base names of the media of the pending rows, URLs that start with
  \<^verbatim>\<open>http\<close> left out.\<close>

definition activeMediaFiles :: "schedule_row list \<Rightarrow> string list" where
  "activeMediaFiles pendingSchedule =
     map path_basename
       (filter (\<lambda>url. url \<noteq> [] \<and> \<not> startsWith url ''http'')
          (List.map_filter media_url pendingSchedule))"

text \<open>The loop over the directory listing: the exception that left it (a rejected
  \<^verbatim>\<open>stat\<close>), if any, and the file system. A rejected \<^verbatim>\<open>unlink\<close> is only logged.\<close>

fun sweep_files :: "string list \<Rightarrow> int \<Rightarrow> string list \<Rightarrow> filesystem \<Rightarrow> string option \<times> filesystem" where
  "sweep_files active oneDayAgo [] f = (None, f)"
| "sweep_files active oneDayAgo (file # files) f =
     (if file = ''.gitkeep'' then sweep_files active oneDayAgo files f
      else case fsp_stat f (path_join [UPLOADS_DIR, file]) of
             Inl err \<Rightarrow> (Some err, f)
           | Inr mtime \<Rightarrow>
               if mtime < oneDayAgo \<and> file \<notin> set active then
                 (case fsp_unlink f (path_join [UPLOADS_DIR, file]) of
                    Inl err \<Rightarrow> sweep_files active oneDayAgo files f
                  | Inr f' \<Rightarrow> sweep_files active oneDayAgo files f')
               else sweep_files active oneDayAgo files f)"

definition cleanupOldMediaFiles :: "world \<Rightarrow> world" where
  "cleanupOldMediaFiles w =
     (case fsp_readdir (fs w) UPLOADS_DIR of
        Inl err \<Rightarrow> w
      | Inr files \<Rightarrow>
          if \<not> isSupabaseConfigured (db w) then w
          else
            (let (pendingSchedule, d) = getPendingSchedule (db w);
                 now = clock w;
                 oneDayAgo = now - 24 * 60 * 60 * 1000
             in w\<lparr> fs := snd (sweep_files (activeMediaFiles pendingSchedule) oneDayAgo files (fs w)) \<rparr>))"

section \<open>The birthday check (checkBirthdays)\<close>

text \<open>
  Calendar arithmetic of \<^verbatim>\<open>Date\<close> and dayjs. The process runs with
  \<^verbatim>\<open>TZ=Asia/Colombo\<close> (Dockerfile), the zone the source also names explicitly: a fixed
  offset of five and a half hours, without daylight saving. A day number counts days
  since 1970-01-01; \<open>civil_from_days\<close> and \<open>days_from_civil\<close> convert between day
  numbers and dates of the proleptic Gregorian calendar.
\<close>

definition ms_per_day :: int where
  "ms_per_day = 24 * 60 * 60 * 1000"

definition tz_offset_ms :: int where
  "tz_offset_ms = 330 * 60 * 1000"

definition local_day :: "int \<Rightarrow> int" where
  "local_day t = (t + tz_offset_ms) div ms_per_day"

definition civil_from_days :: "int \<Rightarrow> int \<times> nat \<times> nat" where
  "civil_from_days days =
     (let z = days + 719468;
          era = z div 146097;
          doe = z mod 146097;
          yoe = (doe - doe div 1460 + doe div 36524 - doe div 146096) div 365;
          doy = doe - (365 * yoe + yoe div 4 - yoe div 100);
          mp = (5 * doy + 2) div 153;
          d = doy - (153 * mp + 2) div 5 + 1;
          m = (if mp < 10 then mp + 3 else mp - 9);
          y = yoe + era * 400
      in (if m \<le> 2 then y + 1 else y, nat m, nat d))"

definition days_from_civil :: "int \<times> nat \<times> nat \<Rightarrow> int" where
  "days_from_civil date =
     (case date of (y0, m, d) \<Rightarrow>
        (let y = (if m \<le> 2 then y0 - 1 else y0);
             era = y div 400;
             yoe = y mod 400;
             doy = (153 * (if m > 2 then int m - 3 else int m + 9) + 2) div 5 + int d - 1;
             doe = yoe * 365 + yoe div 4 - yoe div 100 + doy
         in era * 146097 + doe - 719468))"

definition pad2 :: "nat \<Rightarrow> string" where
  "pad2 n = (if n < 10 then CHR ''0'' # show_nat n else show_nat n)"

text \<open>\<^verbatim>\<open>format('MM-DD')\<close> of a date.\<close>

definition format_MM_DD :: "int \<times> nat \<times> nat \<Rightarrow> string" where
  "format_MM_DD date = (case date of (y, m, d) \<Rightarrow> pad2 m @ ''-'' @ pad2 d)"

text \<open>\<^verbatim>\<open>getBirthdaysByDate\<close>: \<^verbatim>\<open>new Date(b.birthday)\<close> is midnight UTC of the stored date,
  whose month and day are then read in local time.\<close>

definition getBirthdaysByDate :: "database \<Rightarrow> string \<Rightarrow> birthday_row list \<times> database" where
  "getBirthdaysByDate d monthDay =
     (if \<not> isSupabaseConfigured d then ([], d)
      else case request_error d of
             Some e \<Rightarrow> ([], d)
           | None \<Rightarrow>
               (filter (\<lambda>b. format_MM_DD (civil_from_days
                                 (local_day (days_from_civil (birthday b) * ms_per_day))) = monthDay)
                       (birthdays d), d))"

text \<open>The remainder operator of JavaScript: the sign of the dividend.\<close>

definition js_rem :: "int \<Rightarrow> int \<Rightarrow> int" where
  "js_rem a b = sgn a * (\<bar>a\<bar> mod \<bar>b\<bar>)"

definition getOrdinalSuffix :: "int \<Rightarrow> string" where
  "getOrdinalSuffix num =
     (let j = js_rem num 10; k = js_rem num 100
      in if j = 1 \<and> k \<noteq> 11 then show_int num @ ''st''
         else if j = 2 \<and> k \<noteq> 12 then show_int num @ ''nd''
         else if j = 3 \<and> k \<noteq> 13 then show_int num @ ''rd''
         else show_int num @ ''th'')"

text \<open>The two emoji that end every template, as UTF-8 bytes.\<close>

definition party_cake :: string where
  "party_cake = [CHR 0xF0, CHR 0x9F, CHR 0x8E, CHR 0x89, CHR 0xF0, CHR 0x9F, CHR 0x8E, CHR 0x82]"

definition template_message :: "birthday_row \<Rightarrow> string \<Rightarrow> string" where
  "template_message b ageText =
     (if relationship b = Some ''family'' then
        ''Happy '' @ ageText @ '' birthday '' @ name b @ ''! '' @ party_cake
      else if relationship b = Some ''relative'' then
        ''Happy '' @ ageText @ '' birthday '' @ name b @ ''! '' @ party_cake
      else if relationship b = Some ''friend'' then
        (if gender b = Some ''male'' then ''Happy '' @ ageText @ '' birthday brother! '' @ party_cake
         else ''Happy '' @ ageText @ '' birthday sis! '' @ party_cake)
      else ''Happy '' @ ageText @ '' birthday '' @ name b @ ''! '' @ party_cake)"

text \<open>\<^verbatim>\<open>generateBirthdayMessage\<close>: the template when there is no generator or when the
  generator fails, the generated text otherwise. The generator is given the row and the
  age text, which is all of the prompt that varies.\<close>

definition generateBirthdayMessage :: "env \<Rightarrow> int \<Rightarrow> birthday_row \<Rightarrow> string" where
  "generateBirthdayMessage e now b =
     (let age = fst (civil_from_days (local_day now)) - fst (birthday b);
          ageText = getOrdinalSuffix age
      in case genAI e of
           None \<Rightarrow> template_message b ageText
         | Some generateContent \<Rightarrow>
             (case generateContent b ageText of
                Some text \<Rightarrow> text
              | None \<Rightarrow> template_message b ageText))"

text \<open>The test \<^verbatim>\<open>alreadySent\<close> of the loop and the time \<^verbatim>\<open>messageTime\<close>: tomorrow's local date
  with hour, minute and second set to zero, the milliseconds of the clock kept.\<close>

definition alreadySent :: "int \<Rightarrow> schedule_row list \<Rightarrow> birthday_row \<Rightarrow> bool" where
  "alreadySent now pendingSchedule b =
     list_ex (\<lambda>item. recipient item = phone b
                \<and> str_includes (case caption item of None \<Rightarrow> [] | Some c \<Rightarrow> c) ''birthday''
                \<and> local_day (send_at item) = local_day now + 1)
             pendingSchedule"

definition messageTime :: "int \<Rightarrow> int" where
  "messageTime now = (local_day now + 1) * ms_per_day - tz_offset_ms + (now + tz_offset_ms) mod 1000"

fun birthday_loop :: "env \<Rightarrow> int \<Rightarrow> schedule_row list \<Rightarrow> birthday_row list \<Rightarrow> database \<Rightarrow> database" where
  "birthday_loop e now pendingSchedule [] d = d"
| "birthday_loop e now pendingSchedule (b # bs) d =
     (if \<not> alreadySent now pendingSchedule b then
        (let birthdayMessage = (if truthy (custom_message b) then the (custom_message b)
                                else generateBirthdayMessage e now b);
             (rows, d') = addScheduleItems d now
                            [\<lparr> batchId = nanoid e, item_recipient = phone b,
                               item_caption = Some birthdayMessage, mediaUrl = None,
                               mediaType = None, sendAt = messageTime now \<rparr>]
         in birthday_loop e now pendingSchedule bs d')
      else birthday_loop e now pendingSchedule bs d)"

definition checkBirthdays :: "env \<Rightarrow> world \<Rightarrow> world" where
  "checkBirthdays e w =
     (if \<not> connected e 0 then w
      else if \<not> isSupabaseConfigured (db w) then w
      else
        (let tomorrow = format_MM_DD (civil_from_days (local_day (clock w) + 1));
             (bdays, d0) = getBirthdaysByDate (db w) tomorrow;
             (pendingSchedule, d1) = getPendingSchedule d0;
             d2 = birthday_loop e (clock w) pendingSchedule bdays d1;
             (allPending, d3) = getPendingSchedule d2
         in w\<lparr> db := d3, events := events w @ [QueueUpdate (length allPending)] \<rparr>))"

section \<open>Observations and sample inputs\<close>

text \<open>The world an outcome carries, the rows of one identifier, and the transport calls
  made for one identifier.\<close>

fun world_of :: "outcome \<Rightarrow> world" where
  "world_of (Continue w) = w"
| "world_of (Break w) = w"
| "world_of (Throw err w) = w"

definition rows_of :: "nat \<Rightarrow> world \<Rightarrow> schedule_row list" where
  "rows_of i w = filter (\<lambda>r. row_id r = i) (schedule (db w))"

definition calls_for :: "nat \<Rightarrow> world \<Rightarrow> (nat \<times> string \<times> payload) list" where
  "calls_for i w = filter (\<lambda>c. fst c = i) (transport_log w)"

text \<open>The kind of a message object and the caption it carries.\<close>

fun payload_kind :: "payload \<Rightarrow> mediaCategory option" where
  "payload_kind (Text t) = None"
| "payload_kind (Image c cap) = Some image"
| "payload_kind (Video c cap) = Some video"
| "payload_kind (Audio c mt) = Some audio"
| "payload_kind (Document c cap mt fileName) = Some document"

fun payload_caption :: "payload \<Rightarrow> string option" where
  "payload_caption (Text t) = None"
| "payload_caption (Image c cap) = cap"
| "payload_caption (Video c cap) = cap"
| "payload_caption (Audio c mt) = None"
| "payload_caption (Document c cap mt fileName) = cap"

text \<open>Sample inputs: a transport that is connected and accepts every message, one that
  rejects every message with a timeout, and rows, stores and worlds built from them.\<close>

definition sample_env :: env where
  "sample_env =
     \<lparr> connected = (\<lambda>k. True),
       sendMessage = (\<lambda>k jid p. None),
       jidNormalizedUser = (\<lambda>jid. jid),
       mime_lookup = (\<lambda>url. None),
       genAI = None,
       nanoid = ''V1StGXR8'' \<rparr>"

definition timeout_env :: env where
  "timeout_env = sample_env\<lparr> sendMessage := (\<lambda>k jid p. Some ''Request timeout'') \<rparr>"

definition sample_row :: "nat \<Rightarrow> string \<Rightarrow> string option \<Rightarrow> string option \<Rightarrow> string option \<Rightarrow> schedule_row" where
  "sample_row i rcpt cap url mt =
     \<lparr> row_id = i, batch_id = Some ''b'', recipient = rcpt, caption = cap,
       media_url = url, media_type = mt, send_at = 9000, status = Pending,
       error = None, retry_count = 0, sent_at = None, created_at = 0 \<rparr>"

definition sample_db :: "schedule_row list \<Rightarrow> database" where
  "sample_db rows =
     \<lparr> isSupabaseConfigured = True, request_error = None, schedule = rows,
       birthdays = [], next_id = 100 \<rparr>"

definition sample_world :: "schedule_row list \<Rightarrow> filesystem \<Rightarrow> world" where
  "sample_world rows files =
     \<lparr> sendingInProgress = False, db = sample_db rows, fs = files, clock = 10000,
       transport_log = [], events = [] \<rparr>"

definition text_row :: schedule_row where
  "text_row = sample_row 1 ''94770000000@s.whatsapp.net'' (Some ''hi'') None None"

definition short_row :: schedule_row where
  "short_row = sample_row 6 ''123'' (Some ''hello'') None None"

definition phone_row :: schedule_row where
  "phone_row = sample_row 5 ''+94 77 000 0000'' (Some ''hello'') None None"

definition group_row :: schedule_row where
  "group_row = sample_row 4 ''120363041234567890@g.us'' (Some ''hello'') None None"

definition missing_media_row :: schedule_row where
  "missing_media_row =
     sample_row 7 ''94770000000'' (Some ''look'') (Some ''/uploads/missing.png'') (Some ''image/png'')"

definition short_missing_row :: schedule_row where
  "short_missing_row =
     sample_row 7 ''123'' (Some ''look'') (Some ''/uploads/missing.png'') (Some ''image/png'')"

definition audio_row :: schedule_row where
  "audio_row =
     sample_row 8 ''94770000000'' (Some ''listen'') (Some ''https://cdn.example.com/a.mp3'')
       (Some ''Audio/MPEG'')"

definition image_row :: schedule_row where
  "image_row =
     sample_row 9 ''94770000000'' (Some ''see'') (Some ''/uploads/pic.png'') (Some ''IMAGE/png'')"

text \<open>A birthday on 4 November with a custom message, and a world whose clock reads
  2026-11-03 15:30:00.123 in Colombo, with an empty schedule.\<close>

definition custom_birthday :: birthday_row where
  "custom_birthday =
     \<lparr> name = ''Nimal'', phone = ''94770000001'', birthday = (1990, 11, 4),
       gender = Some ''male'', relationship = Some ''friend'',
       custom_message = Some ''Many happy returns!'' \<rparr>"

definition birthday_world :: world where
  "birthday_world =
     (sample_world [] [])\<lparr> db := (sample_db [])\<lparr> birthdays := [custom_birthday] \<rparr>,
                            clock := 1793700000123 \<rparr>"

text \<open>Whether a file name is the base name of the media of a pending row whose URL does not
  start with \<^verbatim>\<open>http\<close>: the names the sweep keeps.\<close>

definition referenced :: "database \<Rightarrow> string \<Rightarrow> bool" where
  "referenced d f =
     list_ex (\<lambda>r. status r = Pending
                \<and> (case media_url r of
                      None \<Rightarrow> False
                    | Some u \<Rightarrow> u \<noteq> [] \<and> \<not> startsWith u ''http'' \<and> path_basename u = f))
             (schedule d)"

text \<open>An uploads directory with the sentinel, a file a pending row refers to, an old and a
  new file nobody refers to, and a file that shares its name with a remote URL; the clock
  is more than a day after the old files were written.\<close>

definition sweep_dir :: filesystem where
  "sweep_dir =
     [(''/app/public/uploads'', Directory 0),
      (''/app/public/uploads/.gitkeep'', File 0 []),
      (''/app/public/uploads/kept.png'', File 1000 ''K''),
      (''/app/public/uploads/old.bin'', File 1000 ''O''),
      (''/app/public/uploads/new.bin'', File 199999000 ''N''),
      (''/app/public/uploads/a.png'', File 1000 ''A'')]"

definition local_media_row :: schedule_row where
  "local_media_row =
     sample_row 20 ''94770000000'' None (Some ''/uploads/kept.png'') (Some ''image/png'')"

definition remote_media_row :: schedule_row where
  "remote_media_row =
     sample_row 21 ''94770000000'' None (Some ''https://cdn.example.com/a.png'') (Some ''image/png'')"

definition sweep_world :: world where
  "sweep_world = (sample_world [local_media_row, remote_media_row] sweep_dir)\<lparr> clock := 200000000 \<rparr>"

text \<open>The same world with a store whose requests fail, and with a dangling link in the
  uploads directory.\<close>

definition outage_world :: world where
  "outage_world = sweep_world\<lparr> db := (db sweep_world)\<lparr> request_error := Some ''fetch failed'' \<rparr> \<rparr>"

definition dangling_world :: world where
  "dangling_world =
     sweep_world\<lparr> fs := [(''/app/public/uploads'', Directory 0),
                         (''/app/public/uploads/.gitkeep'', File 0 []),
                         (''/app/public/uploads/broken'', DanglingLink),
                         (''/app/public/uploads/kept.png'', File 1000 ''K''),
                         (''/app/public/uploads/old.bin'', File 1000 ''O''),
                         (''/app/public/uploads/new.bin'', File 199999000 ''N''),
                         (''/app/public/uploads/a.png'', File 1000 ''A'')] \<rparr>"

text \<open>A transport that rejects the message of the first item of a run with a timeout and
  accepts every other message, and a text row that comes first in the table.\<close>

definition flaky_env :: env where
  "flaky_env =
     sample_env\<lparr> sendMessage := (\<lambda>k jid p. if k = 1 then Some ''Request timeout'' else None) \<rparr>"

definition first_row :: schedule_row where
  "first_row = sample_row 2 ''94771111111'' (Some ''first'') None None"

section \<open>Properties of the store\<close>

text \<open>
  Claim C3, as the code has it. The due-item selector writes nothing, and it never
  returns a row that is not pending or whose \<open>send_at\<close> is later than \<open>now\<close>. When the
  client is configured and the request succeeds it returns exactly the rows with status
  pending and \<open>send_at \<le> now\<close>, each of them, in the order of the table; without a
  client, or when the request fails, it returns no row.
\<close>

theorem getDueScheduleItems_exact:
  "snd (getDueScheduleItems d now) = d
   \<and> set (fst (getDueScheduleItems d now))
         \<subseteq> {r \<in> set (schedule d). status r = Pending \<and> send_at r \<le> now}
   \<and> (isSupabaseConfigured d \<and> request_error d = None \<longrightarrow>
         fst (getDueScheduleItems d now)
           = filter (\<lambda>r. status r = Pending \<and> send_at r \<le> now) (schedule d)
       \<and> set (fst (getDueScheduleItems d now))
           = {r \<in> set (schedule d). status r = Pending \<and> send_at r \<le> now})
   \<and> (\<not> isSupabaseConfigured d \<or> request_error d \<noteq> None \<longrightarrow> fst (getDueScheduleItems d now) = [])"
  by (auto simp: getDueScheduleItems_def select_schedule_def split: option.splits)

theorem getDueScheduleItems_exact_witness:
  "isSupabaseConfigured (sample_db [text_row, text_row\<lparr>row_id := 2, send_at := 20000\<rparr>, text_row\<lparr>row_id := 3, status := Sent\<rparr>])
   \<and> request_error (sample_db [text_row, text_row\<lparr>row_id := 2, send_at := 20000\<rparr>, text_row\<lparr>row_id := 3, status := Sent\<rparr>]) = None
   \<and> fst (getDueScheduleItems (sample_db [text_row, text_row\<lparr>row_id := 2, send_at := 20000\<rparr>, text_row\<lparr>row_id := 3, status := Sent\<rparr>]) 10000) = [text_row]
   \<and> request_error ((sample_db [text_row])\<lparr>request_error := Some ''fetch failed''\<rparr>) = Some ''fetch failed''
   \<and> fst (getDueScheduleItems ((sample_db [text_row])\<lparr>request_error := Some ''fetch failed''\<rparr>) 10000) = []"
  using getDueScheduleItems_exact [of "sample_db [text_row, text_row\<lparr>row_id := 2, send_at := 20000\<rparr>, text_row\<lparr>row_id := 3, status := Sent\<rparr>]" 10000]
        getDueScheduleItems_exact [of "(sample_db [text_row])\<lparr>request_error := Some ''fetch failed''\<rparr>" 10000]
  by (simp add: sample_db_def text_row_def sample_row_def)

theorem getDueScheduleItems_failed_request_counterexample:
  "text_row \<in> set (schedule ((sample_db [text_row])\<lparr>request_error := Some ''fetch failed''\<rparr>))
   \<and> status text_row = Pending
   \<and> send_at text_row \<le> 10000
   \<and> isSupabaseConfigured ((sample_db [text_row])\<lparr>request_error := Some ''fetch failed''\<rparr>)
   \<and> fst (getDueScheduleItems ((sample_db [text_row])\<lparr>request_error := Some ''fetch failed''\<rparr>) 10000) = []
   \<and> text_row \<notin> set (fst (getDueScheduleItems ((sample_db [text_row])\<lparr>request_error := Some ''fetch failed''\<rparr>) 10000))"
  by code_simp

lemma apply_updates_error: "error (apply_updates st None sentAt r) = error r"
  by (simp add: apply_updates_def Let_def split: option.splits)

lemma apply_updates_status: "status (apply_updates st err sentAt r) = st"
  by (simp add: apply_updates_def Let_def split: option.splits)

lemma db_after_send:
  "db (after_send dueCount processedCount item w)
     = snd (updateScheduleStatus (db w) (row_id item) Sent None (Some (clock w)))"
  by (simp add: after_send_def Let_def case_prod_beta split: sum.splits)

text \<open>
  Claim C10. The status update never clears the stored error: with a null error
  argument the error column of every row is what it was, while the rows of the given id
  take the new status; so a row that held an error from an earlier attempt keeps it when
  it is marked sent. The worker marks an item sent with exactly such a call.
\<close>

theorem updateScheduleStatus_keeps_error:
  "map error (schedule (snd (updateScheduleStatus d i st None sentAt))) = map error (schedule d)
   \<and> (isSupabaseConfigured d \<and> request_error d = None \<longrightarrow>
        map status (schedule (snd (updateScheduleStatus d i st None sentAt)))
          = map (\<lambda>r. if row_id r = i then st else status r) (schedule d))
   \<and> map error (schedule (db (after_send dueCount processedCount item w))) = map error (schedule (db w))"
proof (intro conjI impI)
  show "map error (schedule (snd (updateScheduleStatus d i st None sentAt))) = map error (schedule d)"
    by (simp add: updateScheduleStatus_def apply_updates_error split: option.splits)
  show "map status (schedule (snd (updateScheduleStatus d i st None sentAt)))
          = map (\<lambda>r. if row_id r = i then st else status r) (schedule d)"
    if "isSupabaseConfigured d \<and> request_error d = None"
    using that by (simp add: updateScheduleStatus_def apply_updates_status)
  have "map error (schedule (snd (updateScheduleStatus (db w) (row_id item) Sent None (Some (clock w)))))
          = map error (schedule (db w))"
    by (simp add: updateScheduleStatus_def apply_updates_error split: option.splits)
  then show "map error (schedule (db (after_send dueCount processedCount item w))) = map error (schedule (db w))"
    by (simp add: db_after_send)
qed

theorem updateScheduleStatus_keeps_error_witness:
  "isSupabaseConfigured (sample_db [text_row\<lparr>error := Some ''Request timeout''\<rparr>])
   \<and> request_error (sample_db [text_row\<lparr>error := Some ''Request timeout''\<rparr>]) = None
   \<and> map status (schedule (snd (updateScheduleStatus
        (sample_db [text_row\<lparr>error := Some ''Request timeout''\<rparr>]) 1 Sent None (Some 10000)))) = [Sent]
   \<and> map error (schedule (snd (updateScheduleStatus
        (sample_db [text_row\<lparr>error := Some ''Request timeout''\<rparr>]) 1 Sent None (Some 10000))))
        = [Some ''Request timeout'']"
  using updateScheduleStatus_keeps_error
          [of "sample_db [text_row\<lparr>error := Some ''Request timeout''\<rparr>]" 1 Sent "Some 10000"]
  by (simp add: sample_db_def text_row_def sample_row_def)

section \<open>Properties of the delivery worker\<close>

lemma PUBLIC_DIR_eq: "PUBLIC_DIR = ''/app/public''"
  by code_simp

lemma UPLOADS_DIR_eq: "UPLOADS_DIR = ''/app/public/uploads''"
  by code_simp

lemma path_normalize_absolute:
  "p \<noteq> [] \<Longrightarrow> hd p = CHR ''/'' \<Longrightarrow> \<exists>q. path_normalize p = CHR ''/'' # q"
  by (simp add: path_normalize_def Let_def)

lemma path_join_PUBLIC_DIR: "\<exists>q. path_join [PUBLIC_DIR, rel] = CHR ''/'' # q"
proof (cases "rel = []")
  case True
  then show ?thesis
    by (simp add: path_join_def PUBLIC_DIR_eq path_normalize_absolute)
next
  case False
  then show ?thesis
    by (simp add: path_join_def PUBLIC_DIR_eq path_normalize_absolute)
qed

lemma test_http_colon_slash: "\<not> test_http_colon (CHR ''/'' # q)"
  by (simp add: test_http_colon_def toLowerCase_def toLowerChar_def startsWith_def)

lemma local_path_not_http:
  assumes "\<not> test_http_slashes (the (media_url item))"
  shows "\<not> test_http_colon (localOrHttp item)"
proof -
  obtain q where "localOrHttp item = CHR ''/'' # q"
    using assms path_join_PUBLIC_DIR by (auto simp: localOrHttp_def Let_def)
  then show ?thesis by (simp add: test_http_colon_slash)
qed

lemma digits_no_plus: "\<not> startsWith (filter is_digit s) ''+''"
proof
  assume "startsWith (filter is_digit s) ''+''"
  then have "take 1 (filter is_digit s) = ''+''" by (simp add: startsWith_def)
  then have "CHR ''+'' \<in> set (filter is_digit s)"
    by (metis list.set_intros(1) in_set_takeD)
  then show False by (simp add: is_digit_def)
qed

lemma resolve_jid_phone:
  "\<not> str_includes (recipient item) ''@g.us'' \<Longrightarrow>
   resolve_jid e item =
     (if length (filter is_digit (recipient item)) < 10 then None
      else Some (jidNormalizedUser e (filter is_digit (recipient item) @ ''@s.whatsapp.net'')))"
  by (simp add: resolve_jid_def Let_def digits_no_plus)

lemma resolve_jid_group:
  "str_includes (recipient item) ''@g.us'' \<Longrightarrow> resolve_jid e item = Some (recipient item)"
  by (simp add: resolve_jid_def)

lemma fail_item_simps:
  "transport_log (fail_item item a b w) = transport_log w"
  "fs (fail_item item a b w) = fs w"
  "clock (fail_item item a b w) = clock w"
  "sendingInProgress (fail_item item a b w) = sendingInProgress w"
  "db (fail_item item a b w) = snd (updateScheduleStatus (db w) (row_id item) Failed (Some a) None)"
  by (simp_all add: fail_item_def case_prod_beta)

lemma after_send_simps:
  "transport_log (after_send n k item w) = transport_log w"
  "sendingInProgress (after_send n k item w) = sendingInProgress w"
  "clock w \<le> clock (after_send n k item w)"
  by (simp_all add: after_send_def Let_def case_prod_beta split: sum.splits)

lemma send_failed_simps:
  "transport_log (world_of (send_failed item m w)) = transport_log w"
  "fs (world_of (send_failed item m w)) = fs w"
  "clock (world_of (send_failed item m w)) = clock w"
  "sendingInProgress (world_of (send_failed item m w)) = sendingInProgress w"
  "db (world_of (send_failed item m w)) =
     (if isRetryableError m then db w
      else snd (updateScheduleStatus (db w) (row_id item) Failed (Some m) None))"
  by (simp_all add: send_failed_def incrementRetryCount_def fail_item_simps)

lemma row_id_apply_updates: "row_id (apply_updates st err sa r) = row_id r"
  by (simp add: apply_updates_def Let_def split: option.splits)

lemma updateScheduleStatus_config:
  "isSupabaseConfigured (snd (updateScheduleStatus d i st err sa)) = isSupabaseConfigured d"
  "request_error (snd (updateScheduleStatus d i st err sa)) = request_error d"
  "birthdays (snd (updateScheduleStatus d i st err sa)) = birthdays d"
  by (simp_all add: updateScheduleStatus_def split: option.splits)

lemma updateScheduleStatus_other:
  "j \<noteq> i \<Longrightarrow> filter (\<lambda>r. row_id r = j) (schedule (snd (updateScheduleStatus d i st err sa)))
     = filter (\<lambda>r. row_id r = j) (schedule d)"
proof -
  assume ne: "j \<noteq> i"
  have "filter (\<lambda>r. row_id r = j) (map (\<lambda>r. if row_id r = i then apply_updates st err sa r else r) rows)
          = filter (\<lambda>r. row_id r = j) rows" for rows
    using ne by (induction rows) (auto simp: row_id_apply_updates)
  then show ?thesis
    by (simp add: updateScheduleStatus_def split: option.splits)
qed

lemma updateScheduleStatus_same:
  assumes "isSupabaseConfigured d" and "request_error d = None"
  shows "filter (\<lambda>r. row_id r = i) (schedule (snd (updateScheduleStatus d i st err sa)))
     = map (apply_updates st err sa) (filter (\<lambda>r. row_id r = i) (schedule d))"
proof -
  have "filter (\<lambda>r. row_id r = i) (map (\<lambda>r. if row_id r = i then apply_updates st err sa r else r) rows)
          = map (apply_updates st err sa) (filter (\<lambda>r. row_id r = i) rows)" for rows
    by (induction rows) (auto simp: row_id_apply_updates)
  with assms show ?thesis
    by (simp add: updateScheduleStatus_def)
qed

lemma process_item_log:
  "transport_log (world_of (process_item e n k item w)) = transport_log w
   \<or> (\<exists>jid p. resolve_jid e item = Some jid
         \<and> transport_log (world_of (process_item e n k item w)) = transport_log w @ [(row_id item, jid, p)])"
  by (auto simp: process_item_def dispatch_def Let_def fail_item_simps after_send_simps send_failed_simps
           split: option.splits)

lemma rows_of_fail_item:
  assumes "isSupabaseConfigured (db w)" and "request_error (db w) = None"
  shows "rows_of i (fail_item item a b w)
           = (if i = row_id item then map (apply_updates Failed (Some a) None) (rows_of i w) else rows_of i w)"
  using assms
  by (simp add: rows_of_def fail_item_simps updateScheduleStatus_same updateScheduleStatus_other)

lemma apply_updates_failed:
  "a \<noteq> [] \<Longrightarrow> status (apply_updates Failed (Some a) None r) = Failed
     \<and> error (apply_updates Failed (Some a) None r) = Some a"
  by (simp add: apply_updates_def Let_def)

text \<open>
  Claim C6. While the transport is connected, a recipient without the group marker is
  reduced to its digits; with fewer than ten digits the item is marked failed with the
  error "Invalid phone number: too short" and no transport call is made; with ten or
  more the jid is the normalised digits at \<^verbatim>\<open>s.whatsapp.net\<close>. A recipient with the
  group marker is the jid of the transport call as it stands.
\<close>

theorem recipient_resolution:
  assumes "connected e k"
  shows "(\<not> str_includes (recipient item) ''@g.us'' \<and> length (filter is_digit (recipient item)) < 10 \<longrightarrow>
            process_item e n k item w
              = Continue (fail_item item ''Invalid phone number: too short'' ''Invalid phone number'' w)
          \<and> transport_log (world_of (process_item e n k item w)) = transport_log w
          \<and> (isSupabaseConfigured (db w) \<and> request_error (db w) = None \<longrightarrow>
               map (\<lambda>r. (status r, error r)) (rows_of (row_id item) (world_of (process_item e n k item w)))
                 = map (\<lambda>r. (Failed, Some ''Invalid phone number: too short'')) (rows_of (row_id item) w)))
       \<and> (\<not> str_includes (recipient item) ''@g.us'' \<and> 10 \<le> length (filter is_digit (recipient item)) \<longrightarrow>
            transport_log (world_of (process_item e n k item w)) = transport_log w
            \<or> (\<exists>p. transport_log (world_of (process_item e n k item w))
                     = transport_log w @ [(row_id item,
                          jidNormalizedUser e (filter is_digit (recipient item) @ ''@s.whatsapp.net''), p)]))
       \<and> (str_includes (recipient item) ''@g.us'' \<longrightarrow>
            transport_log (world_of (process_item e n k item w)) = transport_log w
            \<or> (\<exists>p. transport_log (world_of (process_item e n k item w))
                     = transport_log w @ [(row_id item, recipient item, p)]))"
proof (intro conjI impI)
  assume short: "\<not> str_includes (recipient item) ''@g.us'' \<and> length (filter is_digit (recipient item)) < 10"
  then have none: "resolve_jid e item = None"
    by (simp add: resolve_jid_phone)
  with assms show step: "process_item e n k item w
              = Continue (fail_item item ''Invalid phone number: too short'' ''Invalid phone number'' w)"
    by (simp add: process_item_def)
  then show "transport_log (world_of (process_item e n k item w)) = transport_log w"
    by (simp add: fail_item_simps)
  assume ok: "isSupabaseConfigured (db w) \<and> request_error (db w) = None"
  then show "map (\<lambda>r. (status r, error r)) (rows_of (row_id item) (world_of (process_item e n k item w)))
                 = map (\<lambda>r. (Failed, Some ''Invalid phone number: too short'')) (rows_of (row_id item) w)"
    by (simp add: step rows_of_fail_item apply_updates_failed)
next
  assume "\<not> str_includes (recipient item) ''@g.us'' \<and> 10 \<le> length (filter is_digit (recipient item))"
  then have "resolve_jid e item
               = Some (jidNormalizedUser e (filter is_digit (recipient item) @ ''@s.whatsapp.net''))"
    by (simp add: resolve_jid_phone)
  then show "transport_log (world_of (process_item e n k item w)) = transport_log w
            \<or> (\<exists>p. transport_log (world_of (process_item e n k item w))
                     = transport_log w @ [(row_id item,
                          jidNormalizedUser e (filter is_digit (recipient item) @ ''@s.whatsapp.net''), p)])"
    using process_item_log [of e n k item w] by auto
next
  assume "str_includes (recipient item) ''@g.us''"
  then have "resolve_jid e item = Some (recipient item)"
    by (simp add: resolve_jid_group)
  then show "transport_log (world_of (process_item e n k item w)) = transport_log w
            \<or> (\<exists>p. transport_log (world_of (process_item e n k item w))
                     = transport_log w @ [(row_id item, recipient item, p)])"
    using process_item_log [of e n k item w] by auto
qed

theorem recipient_resolution_witness:
  "connected sample_env 1
   \<and> \<not> str_includes (recipient short_row) ''@g.us'' \<and> length (filter is_digit (recipient short_row)) < 10
   \<and> isSupabaseConfigured (db (sample_world [short_row] [])) \<and> request_error (db (sample_world [short_row] [])) = None
   \<and> map (\<lambda>r. (status r, error r))
        (rows_of 6 (world_of (process_item sample_env 1 1 short_row (sample_world [short_row] []))))
        = [(Failed, Some ''Invalid phone number: too short'')]
   \<and> transport_log (world_of (process_item sample_env 1 1 short_row (sample_world [short_row] []))) = []
   \<and> \<not> str_includes (recipient phone_row) ''@g.us'' \<and> 10 \<le> length (filter is_digit (recipient phone_row))
   \<and> transport_log (world_of (process_item sample_env 1 1 phone_row (sample_world [phone_row] [])))
        = [(5, ''94770000000@s.whatsapp.net'', Text ''hello'')]
   \<and> str_includes (recipient group_row) ''@g.us''
   \<and> transport_log (world_of (process_item sample_env 1 1 group_row (sample_world [group_row] [])))
        = [(4, ''120363041234567890@g.us'', Text ''hello'')]"
proof -
  have c: "connected sample_env 1" by (simp add: sample_env_def)
  have h1: "\<not> str_includes (recipient short_row) ''@g.us'' \<and> length (filter is_digit (recipient short_row)) < 10"
    by code_simp
  have h1': "isSupabaseConfigured (db (sample_world [short_row] [])) \<and> request_error (db (sample_world [short_row] [])) = None"
    by (simp add: sample_world_def sample_db_def)
  have r1: "rows_of 6 (sample_world [short_row] []) = [short_row]" "row_id short_row = 6"
    by (simp_all add: rows_of_def sample_world_def sample_db_def short_row_def sample_row_def)
  have h2: "\<not> str_includes (recipient phone_row) ''@g.us'' \<and> 10 \<le> length (filter is_digit (recipient phone_row))"
    by code_simp
  have v2: "transport_log (world_of (process_item sample_env 1 1 phone_row (sample_world [phone_row] [])))
        = [(5, ''94770000000@s.whatsapp.net'', Text ''hello'')]"
    by code_simp
  have h3: "str_includes (recipient group_row) ''@g.us''"
    by code_simp
  have v3: "transport_log (world_of (process_item sample_env 1 1 group_row (sample_world [group_row] [])))
        = [(4, ''120363041234567890@g.us'', Text ''hello'')]"
    by code_simp
  have t0: "transport_log (sample_world [short_row] []) = []"
    by (simp add: sample_world_def)
  have main: "map (\<lambda>r. (status r, error r))
                 (rows_of (row_id short_row) (world_of (process_item sample_env 1 1 short_row (sample_world [short_row] []))))
               = map (\<lambda>r. (Failed, Some ''Invalid phone number: too short''))
                   (rows_of (row_id short_row) (sample_world [short_row] []))
             \<and> transport_log (world_of (process_item sample_env 1 1 short_row (sample_world [short_row] [])))
               = transport_log (sample_world [short_row] [])"
    using recipient_resolution [OF c, of short_row 1 "sample_world [short_row] []"] h1 h1'
    by blast
  have v1: "map (\<lambda>r. (status r, error r))
        (rows_of 6 (world_of (process_item sample_env 1 1 short_row (sample_world [short_row] []))))
        = [(Failed, Some ''Invalid phone number: too short'')]"
    using main r1 by simp
  have v1': "transport_log (world_of (process_item sample_env 1 1 short_row (sample_world [short_row] []))) = []"
    using main t0 by simp
  show ?thesis
    using c h1 h1' v1 v1' h2 v2 h3 v3 by blast
qed

text \<open>
  Claim C7, as the code has it. The recipient is resolved before the media: a due item
  whose recipient resolves and whose media is a local path that cannot be accessed is
  marked failed with the error "Media file not found" while the transport is
  connected; no transport call is made, the retry classifier is not consulted, and the
  loop goes on with the remaining items. An item whose phone number is too short fails
  with that error first, whatever its media.
\<close>

theorem missing_media_fails_without_send:
  assumes "connected e (Suc k)"
    and "resolve_jid e item = Some jid"
    and "hasMedia item"
    and "\<not> test_http_slashes (the (media_url item))"
    and "\<not> fsp_access (fs w) (localOrHttp item)"
  shows "process_item e n (Suc k) item w
           = Continue (fail_item item ''Media file not found'' ''Media file not found'' w)
       \<and> transport_log (world_of (process_item e n (Suc k) item w)) = transport_log w
       \<and> for_items e n k (item # rest) w
           = for_items e n (Suc k) rest (fail_item item ''Media file not found'' ''Media file not found'' w)
       \<and> (isSupabaseConfigured (db w) \<and> request_error (db w) = None \<longrightarrow>
             map (\<lambda>r. (status r, error r)) (rows_of (row_id item) (world_of (process_item e n (Suc k) item w)))
               = map (\<lambda>r. (Failed, Some ''Media file not found'')) (rows_of (row_id item) w))"
proof -
  have "\<not> test_http_colon (localOrHttp item)"
    using assms(4) by (rule local_path_not_http)
  with assms(5) have "load_content (fs w) item = None"
    by (simp add: load_content_def)
  with assms(1,2,3) have step: "process_item e n (Suc k) item w
           = Continue (fail_item item ''Media file not found'' ''Media file not found'' w)"
    by (simp add: process_item_def)
  show ?thesis
    by (simp add: step fail_item_simps rows_of_fail_item apply_updates_failed)
qed

theorem missing_media_fails_without_send_witness:
  "connected sample_env (Suc 0)
   \<and> resolve_jid sample_env missing_media_row = Some ''94770000000@s.whatsapp.net''
   \<and> hasMedia missing_media_row
   \<and> \<not> test_http_slashes (the (media_url missing_media_row))
   \<and> \<not> fsp_access (fs (sample_world [missing_media_row, text_row] [])) (localOrHttp missing_media_row)
   \<and> isSupabaseConfigured (db (sample_world [missing_media_row, text_row] []))
   \<and> request_error (db (sample_world [missing_media_row, text_row] [])) = None
   \<and> map (\<lambda>r. (status r, error r))
        (rows_of 7 (world_of (process_item sample_env 2 (Suc 0) missing_media_row
                                 (sample_world [missing_media_row, text_row] []))))
        = [(Failed, Some ''Media file not found'')]
   \<and> map (\<lambda>r. (row_id r, status r, error r))
        (schedule (db (processQueue sample_env (sample_world [missing_media_row, text_row] []))))
        = [(7, Failed, Some ''Media file not found''), (1, Sent, None)]
   \<and> transport_log (processQueue sample_env (sample_world [missing_media_row, text_row] []))
        = [(1, ''94770000000@s.whatsapp.net'', Text ''hi'')]"
proof -
  have c: "connected sample_env (Suc 0)" by (simp add: sample_env_def)
  have j: "resolve_jid sample_env missing_media_row = Some ''94770000000@s.whatsapp.net''"
    by code_simp
  have m: "hasMedia missing_media_row" by code_simp
  have u: "\<not> test_http_slashes (the (media_url missing_media_row))" by code_simp
  have a: "\<not> fsp_access (fs (sample_world [missing_media_row, text_row] [])) (localOrHttp missing_media_row)"
    by code_simp
  have ok: "isSupabaseConfigured (db (sample_world [missing_media_row, text_row] []))
            \<and> request_error (db (sample_world [missing_media_row, text_row] [])) = None"
    by (simp add: sample_world_def sample_db_def)
  have r: "rows_of (row_id missing_media_row) (sample_world [missing_media_row, text_row] []) = [missing_media_row]"
          "row_id missing_media_row = 7"
    by (simp_all add: rows_of_def sample_world_def sample_db_def missing_media_row_def text_row_def sample_row_def)
  have main: "map (\<lambda>r. (status r, error r))
        (rows_of (row_id missing_media_row) (world_of (process_item sample_env 2 (Suc 0) missing_media_row
                                 (sample_world [missing_media_row, text_row] []))))
        = map (\<lambda>r. (Failed, Some ''Media file not found''))
            (rows_of (row_id missing_media_row) (sample_world [missing_media_row, text_row] []))"
    using missing_media_fails_without_send [OF c j m u a, of 2 Nil] ok by blast
  have v: "map (\<lambda>r. (status r, error r))
        (rows_of 7 (world_of (process_item sample_env 2 (Suc 0) missing_media_row
                                 (sample_world [missing_media_row, text_row] []))))
        = [(Failed, Some ''Media file not found'')]"
    using main r by simp
  have run: "map (\<lambda>r. (row_id r, status r, error r))
        (schedule (db (processQueue sample_env (sample_world [missing_media_row, text_row] []))))
        = [(7, Failed, Some ''Media file not found''), (1, Sent, None)]"
    by code_simp
  have log: "transport_log (processQueue sample_env (sample_world [missing_media_row, text_row] []))
        = [(1, ''94770000000@s.whatsapp.net'', Text ''hi'')]"
    by code_simp
  show ?thesis
    using c j m u a ok v run log by blast
qed

theorem missing_media_short_phone_counterexample:
  "hasMedia short_missing_row
   \<and> \<not> test_http_slashes (the (media_url short_missing_row))
   \<and> \<not> fsp_access (fs (sample_world [short_missing_row] [])) (localOrHttp short_missing_row)
   \<and> map status (schedule (db (processQueue sample_env (sample_world [short_missing_row] [])))) = [Failed]
   \<and> map error (schedule (db (processQueue sample_env (sample_world [short_missing_row] []))))
        = [Some ''Invalid phone number: too short'']
   \<and> map error (schedule (db (processQueue sample_env (sample_world [short_missing_row] []))))
        \<noteq> [Some ''Media file not found'']"
  by code_simp

lemma dispatch_log:
  "transport_log (world_of (dispatch e n k item jid p w)) = transport_log w @ [(row_id item, jid, p)]"
  by (simp add: dispatch_def Let_def after_send_simps send_failed_simps split: option.splits)

lemma media_message_kind:
  "payload_kind (media_message e item c) = Some (categorize (media_type item))"
  by (cases "categorize (media_type item)") (simp_all add: media_message_def Let_def)

lemma media_message_caption:
  "categorize (media_type item) \<noteq> audio \<Longrightarrow>
     payload_caption (media_message e item c) = or_null (caption item)"
  by (cases "categorize (media_type item)") (simp_all add: media_message_def Let_def)

lemma media_message_audio:
  "categorize (media_type item) = audio \<Longrightarrow> media_message e item c = Audio c (media_type item)"
  by (simp add: media_message_def Let_def)

lemma toLowerChar_fixed:
  assumes "l \<in> set ''abcdefghijklmnopqrstuvwxyz''"
  shows "toLowerChar l = l"
proof -
  from assms have "l = CHR ''a'' \<or> l = CHR ''b'' \<or> l = CHR ''c'' \<or> l = CHR ''d'' \<or> l = CHR ''e''
      \<or> l = CHR ''f'' \<or> l = CHR ''g'' \<or> l = CHR ''h'' \<or> l = CHR ''i'' \<or> l = CHR ''j''
      \<or> l = CHR ''k'' \<or> l = CHR ''l'' \<or> l = CHR ''m'' \<or> l = CHR ''n'' \<or> l = CHR ''o''
      \<or> l = CHR ''p'' \<or> l = CHR ''q'' \<or> l = CHR ''r'' \<or> l = CHR ''s'' \<or> l = CHR ''t''
      \<or> l = CHR ''u'' \<or> l = CHR ''v'' \<or> l = CHR ''w'' \<or> l = CHR ''x'' \<or> l = CHR ''y''
      \<or> l = CHR ''z''"
    by (simp only: list.set insert_iff empty_iff HOL.simp_thms)
  then show ?thesis
    by (elim disjE) (simp_all add: toLowerChar_def)
qed

lemma toLowerChar_idem: "toLowerChar (toLowerChar c) = toLowerChar c"
proof (cases "map_of (zip ''ABCDEFGHIJKLMNOPQRSTUVWXYZ'' ''abcdefghijklmnopqrstuvwxyz'') c")
  case None
  then show ?thesis by (simp add: toLowerChar_def)
next
  case (Some l)
  then have "l \<in> set ''abcdefghijklmnopqrstuvwxyz''"
    by (meson map_of_SomeD set_zip_rightD)
  then have "toLowerChar l = l"
    by (rule toLowerChar_fixed)
  with Some show ?thesis by (simp add: toLowerChar_def)
qed

lemma toLowerCase_idem: "toLowerCase (toLowerCase s) = toLowerCase s"
  by (simp add: toLowerCase_def toLowerChar_idem)

text \<open>
  Claim C8, as the code has it. Take a due item that the run reaches while the transport
  is connected and whose recipient resolves. If it has media whose content loads (a
  remote URL, or a local file that can be read), the worker makes one transport call
  whose kind is the category of the media type: the lower-cased type is searched for
  "image", then "video", then "audio", and is a document otherwise. Image, video and
  document messages carry the item's caption (absent when empty); an audio message
  carries the media type as mimetype and no caption. If it has no media and a caption
  that is not empty, the call is plain text with the caption.
\<close>

theorem dispatch_by_category:
  assumes "connected e k" and "resolve_jid e item = Some jid"
  shows "(hasMedia item \<and> load_content (fs w) item = Some c \<longrightarrow>
            (\<exists>p. transport_log (world_of (process_item e n k item w)) = transport_log w @ [(row_id item, jid, p)]
               \<and> payload_kind p = Some (categorize (media_type item))
               \<and> (categorize (media_type item) \<noteq> audio \<longrightarrow> payload_caption p = or_null (caption item))
               \<and> (categorize (media_type item) = audio \<longrightarrow> p = Audio c (media_type item))))
       \<and> (\<not> hasMedia item \<and> truthy (caption item) \<longrightarrow>
            transport_log (world_of (process_item e n k item w))
              = transport_log w @ [(row_id item, jid, Text (the (caption item)))])
       \<and> categorize (Some (toLowerCase t)) = categorize (Some t)
       \<and> (str_includes (toLowerCase t) ''image'' \<longrightarrow> categorize (Some t) = image)
       \<and> (\<not> str_includes (toLowerCase t) ''image'' \<and> str_includes (toLowerCase t) ''video'' \<longrightarrow>
             categorize (Some t) = video)
       \<and> (\<not> str_includes (toLowerCase t) ''image'' \<and> \<not> str_includes (toLowerCase t) ''video''
             \<and> str_includes (toLowerCase t) ''audio'' \<longrightarrow> categorize (Some t) = audio)
       \<and> (\<not> str_includes (toLowerCase t) ''image'' \<and> \<not> str_includes (toLowerCase t) ''video''
             \<and> \<not> str_includes (toLowerCase t) ''audio'' \<longrightarrow> categorize (Some t) = document)
       \<and> categorize None = document"
proof (intro conjI impI)
  assume h: "hasMedia item \<and> load_content (fs w) item = Some c"
  with assms have "process_item e n k item w = dispatch e n k item jid (media_message e item c) w"
    by (simp add: process_item_def)
  then have "transport_log (world_of (process_item e n k item w))
               = transport_log w @ [(row_id item, jid, media_message e item c)]"
    by (simp add: dispatch_log)
  then show "\<exists>p. transport_log (world_of (process_item e n k item w)) = transport_log w @ [(row_id item, jid, p)]
               \<and> payload_kind p = Some (categorize (media_type item))
               \<and> (categorize (media_type item) \<noteq> audio \<longrightarrow> payload_caption p = or_null (caption item))
               \<and> (categorize (media_type item) = audio \<longrightarrow> p = Audio c (media_type item))"
    using media_message_kind media_message_caption media_message_audio by blast
next
  assume "\<not> hasMedia item \<and> truthy (caption item)"
  with assms have "process_item e n k item w = dispatch e n k item jid (Text (the (caption item))) w"
    by (simp add: process_item_def)
  then show "transport_log (world_of (process_item e n k item w))
              = transport_log w @ [(row_id item, jid, Text (the (caption item)))]"
    by (simp add: dispatch_log)
next
  show "categorize (Some (toLowerCase t)) = categorize (Some t)"
    by (simp add: categorize_def toLowerCase_idem)
next
  show "categorize None = document"
    by (simp add: categorize_def toLowerCase_def startsWith_def)
qed (simp_all add: categorize_def Let_def)

theorem dispatch_by_category_witness:
  "connected sample_env 1
   \<and> resolve_jid sample_env image_row = Some ''94770000000@s.whatsapp.net''
   \<and> hasMedia image_row
   \<and> load_content (fs (sample_world [image_row] [(''/app/public/uploads/pic.png'', File 5 ''PNGDATA'')])) image_row
        = Some (Buffer ''PNGDATA'')
   \<and> categorize (media_type image_row) \<noteq> audio
   \<and> transport_log (world_of (process_item sample_env 1 1 image_row
         (sample_world [image_row] [(''/app/public/uploads/pic.png'', File 5 ''PNGDATA'')])))
        = [(9, ''94770000000@s.whatsapp.net'', Image (Buffer ''PNGDATA'') (Some ''see''))]
   \<and> resolve_jid sample_env audio_row = Some ''94770000000@s.whatsapp.net''
   \<and> hasMedia audio_row
   \<and> load_content (fs (sample_world [audio_row] [])) audio_row = Some (Url ''https://cdn.example.com/a.mp3'')
   \<and> categorize (media_type audio_row) = audio
   \<and> transport_log (world_of (process_item sample_env 1 1 audio_row (sample_world [audio_row] [])))
        = [(8, ''94770000000@s.whatsapp.net'', Audio (Url ''https://cdn.example.com/a.mp3'') (Some ''Audio/MPEG''))]
   \<and> resolve_jid sample_env text_row = Some ''94770000000@s.whatsapp.net''
   \<and> \<not> hasMedia text_row \<and> truthy (caption text_row)
   \<and> transport_log (world_of (process_item sample_env 1 1 text_row (sample_world [text_row] [])))
        = [(1, ''94770000000@s.whatsapp.net'', Text ''hi'')]
   \<and> str_includes (toLowerCase ''IMAGE/video'') ''image'' \<and> categorize (Some ''IMAGE/video'') = image
   \<and> \<not> str_includes (toLowerCase ''Video/Audio'') ''image'' \<and> str_includes (toLowerCase ''Video/Audio'') ''video''
   \<and> categorize (Some ''Video/Audio'') = video
   \<and> \<not> str_includes (toLowerCase ''AUDIO/ogg'') ''image'' \<and> \<not> str_includes (toLowerCase ''AUDIO/ogg'') ''video''
   \<and> str_includes (toLowerCase ''AUDIO/ogg'') ''audio'' \<and> categorize (Some ''AUDIO/ogg'') = audio
   \<and> \<not> str_includes (toLowerCase ''application/pdf'') ''image''
   \<and> \<not> str_includes (toLowerCase ''application/pdf'') ''video''
   \<and> \<not> str_includes (toLowerCase ''application/pdf'') ''audio''
   \<and> categorize (Some ''application/pdf'') = document"
proof -
  have c: "connected sample_env 1" by (simp add: sample_env_def)
  have j1: "resolve_jid sample_env image_row = Some ''94770000000@s.whatsapp.net''" by code_simp
  have j2: "resolve_jid sample_env audio_row = Some ''94770000000@s.whatsapp.net''" by code_simp
  have j3: "resolve_jid sample_env text_row = Some ''94770000000@s.whatsapp.net''" by code_simp
  have h1: "hasMedia image_row
     \<and> load_content (fs (sample_world [image_row] [(''/app/public/uploads/pic.png'', File 5 ''PNGDATA'')])) image_row
        = Some (Buffer ''PNGDATA'')"
    by code_simp
  have k1: "categorize (media_type image_row) \<noteq> audio" by code_simp
  have h2: "hasMedia audio_row
     \<and> load_content (fs (sample_world [audio_row] [])) audio_row = Some (Url ''https://cdn.example.com/a.mp3'')"
    by code_simp
  have k2: "categorize (media_type audio_row) = audio" by code_simp
  have h3: "\<not> hasMedia text_row \<and> truthy (caption text_row)" by code_simp
  have v1: "transport_log (world_of (process_item sample_env 1 1 image_row
         (sample_world [image_row] [(''/app/public/uploads/pic.png'', File 5 ''PNGDATA'')])))
        = [(9, ''94770000000@s.whatsapp.net'', Image (Buffer ''PNGDATA'') (Some ''see''))]"
    by code_simp
  have v2: "transport_log (world_of (process_item sample_env 1 1 audio_row (sample_world [audio_row] [])))
        = [(8, ''94770000000@s.whatsapp.net'', Audio (Url ''https://cdn.example.com/a.mp3'') (Some ''Audio/MPEG''))]"
    by code_simp
  have t3: "transport_log (sample_world [text_row] []) = []" "row_id text_row = 1" "the (caption text_row) = ''hi''"
    by (simp_all add: sample_world_def text_row_def sample_row_def)
  have v3: "transport_log (world_of (process_item sample_env 1 1 text_row (sample_world [text_row] [])))
        = [(1, ''94770000000@s.whatsapp.net'', Text ''hi'')]"
    using dispatch_by_category [OF c j3, where w = "sample_world [text_row] []" and n = 1] h3 t3
    by simp
  have s1: "str_includes (toLowerCase ''IMAGE/video'') ''image''" by code_simp
  have s2: "\<not> str_includes (toLowerCase ''Video/Audio'') ''image'' \<and> str_includes (toLowerCase ''Video/Audio'') ''video''"
    by code_simp
  have s3: "\<not> str_includes (toLowerCase ''AUDIO/ogg'') ''image'' \<and> \<not> str_includes (toLowerCase ''AUDIO/ogg'') ''video''
     \<and> str_includes (toLowerCase ''AUDIO/ogg'') ''audio''"
    by code_simp
  have s4: "\<not> str_includes (toLowerCase ''application/pdf'') ''image''
   \<and> \<not> str_includes (toLowerCase ''application/pdf'') ''video''
   \<and> \<not> str_includes (toLowerCase ''application/pdf'') ''audio''"
    by code_simp
  have c1: "categorize (Some ''IMAGE/video'') = image"
    using dispatch_by_category [OF c j1, where t = "''IMAGE/video''"] s1 by blast
  have c2: "categorize (Some ''Video/Audio'') = video"
    using dispatch_by_category [OF c j1, where t = "''Video/Audio''"] s2 by blast
  have c3: "categorize (Some ''AUDIO/ogg'') = audio"
    using dispatch_by_category [OF c j1, where t = "''AUDIO/ogg''"] s3 by blast
  have c4: "categorize (Some ''application/pdf'') = document"
    using dispatch_by_category [OF c j1, where t = "''application/pdf''"] s4 by blast
  show ?thesis
    using c j1 j2 j3 h1 k1 h2 k2 h3 v1 v2 v3 s1 s2 s3 s4 c1 c2 c3 c4
          dispatch_by_category [OF c j1, where w = "sample_world [image_row] [(''/app/public/uploads/pic.png'', File 5 ''PNGDATA'')]"
                                   and c = "Buffer ''PNGDATA''" and n = 1]
          dispatch_by_category [OF c j2, where w = "sample_world [audio_row] []"
                                   and c = "Url ''https://cdn.example.com/a.mp3''" and n = 1]
    by blast
qed

theorem audio_without_caption_counterexample:
  "hasMedia audio_row
   \<and> caption audio_row = Some ''listen''
   \<and> transport_log (processQueue sample_env (sample_world [audio_row] []))
        = [(8, ''94770000000@s.whatsapp.net'', Audio (Url ''https://cdn.example.com/a.mp3'') (Some ''Audio/MPEG''))]
   \<and> payload_caption (Audio (Url ''https://cdn.example.com/a.mp3'') (Some ''Audio/MPEG'')) = None
   \<and> map status (schedule (db (processQueue sample_env (sample_world [audio_row] [])))) = [Sent]
   \<and> \<not> hasMedia short_row \<and> caption short_row = Some ''hello''
   \<and> transport_log (processQueue sample_env (sample_world [short_row] [])) = []"
  by code_simp

lemma process_item_db:
  "db (world_of (process_item e n k item w)) = db w
   \<or> (\<exists>st err sa. db (world_of (process_item e n k item w))
          = snd (updateScheduleStatus (db w) (row_id item) st err sa))"
  by (auto simp: process_item_def dispatch_def Let_def fail_item_simps db_after_send send_failed_simps
           split: option.splits)

lemma process_item_clock: "clock w \<le> clock (world_of (process_item e n k item w))"
proof -
  have "clock w \<le> clock (after_send n k item (w\<lparr>transport_log := l\<rparr>))" for l
    using after_send_simps(3) [of "w\<lparr>transport_log := l\<rparr>" n k item] by simp
  then show ?thesis
    by (auto simp: process_item_def dispatch_def Let_def fail_item_simps send_failed_simps
             split: option.splits)
qed

lemma process_item_config:
  "isSupabaseConfigured (db (world_of (process_item e n k item w))) = isSupabaseConfigured (db w)"
  "request_error (db (world_of (process_item e n k item w))) = request_error (db w)"
  using process_item_db [of e n k item w]
  by (auto simp: updateScheduleStatus_config)

lemma process_item_untouched:
  assumes "row_id item \<noteq> i"
  shows "rows_of i (world_of (process_item e n k item w)) = rows_of i w"
    and "calls_for i (world_of (process_item e n k item w)) = calls_for i w"
proof -
  show "rows_of i (world_of (process_item e n k item w)) = rows_of i w"
    using process_item_db [of e n k item w] assms
    by (auto simp: rows_of_def updateScheduleStatus_other)
  show "calls_for i (world_of (process_item e n k item w)) = calls_for i w"
    using process_item_log [of e n k item w] assms
    by (auto simp: calls_for_def)
qed

lemma process_item_continues:
  assumes "connected e k" and "\<And>jid p. sendMessage e k jid p = None"
  shows "process_item e n k item w = Continue (world_of (process_item e n k item w))"
  using assms
  by (simp add: process_item_def dispatch_def Let_def split: option.splits)

lemma process_item_text_sent:
  assumes "connected e k" and "sendMessage e k jid (Text (the (caption item))) = None"
    and "resolve_jid e item = Some jid" and "\<not> hasMedia item" and "truthy (caption item)"
    and "isSupabaseConfigured (db w)" and "request_error (db w) = None"
  shows "rows_of (row_id item) (world_of (process_item e n k item w))
           = map (apply_updates Sent None (Some (clock w))) (rows_of (row_id item) w)"
    and "calls_for (row_id item) (world_of (process_item e n k item w))
           = calls_for (row_id item) w @ [(row_id item, jid, Text (the (caption item)))]"
proof -
  have step: "process_item e n k item w
     = Continue (after_send n k item (w\<lparr>transport_log := transport_log w @ [(row_id item, jid, Text (the (caption item)))]\<rparr>))"
    using assms(1-5) by (simp add: process_item_def dispatch_def Let_def)
  show "rows_of (row_id item) (world_of (process_item e n k item w))
           = map (apply_updates Sent None (Some (clock w))) (rows_of (row_id item) w)"
    using assms(6,7) by (simp add: step rows_of_def db_after_send updateScheduleStatus_same)
  show "calls_for (row_id item) (world_of (process_item e n k item w))
           = calls_for (row_id item) w @ [(row_id item, jid, Text (the (caption item)))]"
    by (simp add: step calls_for_def after_send_simps)
qed

lemma for_items_untouched:
  assumes "\<And>k. connected e k" and "\<And>k jid p. sendMessage e k jid p = None"
    and "i \<notin> row_id ` set items"
  shows "\<exists>w'. for_items e n k items w = (None, w') \<and> rows_of i w' = rows_of i w
               \<and> calls_for i w' = calls_for i w"
  using assms(3)
proof (induction items arbitrary: k w)
  case Nil
  then show ?case by simp
next
  case (Cons item rest)
  obtain w1 where step: "process_item e n (Suc k) item w = Continue w1"
    using process_item_continues [of e "Suc k" n item w] assms(1,2) by blast
  have ne: "row_id item \<noteq> i" using Cons.prems by auto
  have same: "rows_of i w1 = rows_of i w" "calls_for i w1 = calls_for i w"
    using process_item_untouched [OF ne, of e n "Suc k" w] step by simp_all
  obtain w' where "for_items e n (Suc k) rest w1 = (None, w')"
      and "rows_of i w' = rows_of i w1" and "calls_for i w' = calls_for i w1"
    using Cons.IH [of "Suc k" w1] Cons.prems by auto
  then show ?case
    using step same by simp
qed

lemma for_items_text_sent:
  assumes conn: "\<And>k. connected e k" and sends: "\<And>k jid p. sendMessage e k jid p = None"
    and jid: "resolve_jid e r = Some jid" and plain: "\<not> hasMedia r" "truthy (caption r)"
  shows "r \<in> set items \<Longrightarrow> distinct (map row_id items) \<Longrightarrow>
         isSupabaseConfigured (db w) \<Longrightarrow> request_error (db w) = None \<Longrightarrow>
         \<exists>w' t. for_items e n k items w = (None, w') \<and> clock w \<le> t
           \<and> rows_of (row_id r) w' = map (apply_updates Sent None (Some t)) (rows_of (row_id r) w)
           \<and> calls_for (row_id r) w' = calls_for (row_id r) w @ [(row_id r, jid, Text (the (caption r)))]"
proof (induction items arbitrary: k w)
  case Nil
  then show ?case by simp
next
  case (Cons item rest)
  obtain w1 where step: "process_item e n (Suc k) item w = Continue w1"
    using process_item_continues [of e "Suc k" n item w] conn sends by blast
  then have w1: "world_of (process_item e n (Suc k) item w) = w1" by simp
  show ?case
  proof (cases "item = r")
    case True
    have rows: "rows_of (row_id r) w1 = map (apply_updates Sent None (Some (clock w))) (rows_of (row_id r) w)"
      and calls: "calls_for (row_id r) w1 = calls_for (row_id r) w @ [(row_id r, jid, Text (the (caption r)))]"
      using process_item_text_sent [OF conn sends jid plain Cons.prems(3,4), where k = "Suc k" and n = n] w1 True
      by simp_all
    have "row_id r \<notin> row_id ` set rest"
      using Cons.prems(2) True by auto
    then obtain w' where "for_items e n (Suc k) rest w1 = (None, w')"
        and "rows_of (row_id r) w' = rows_of (row_id r) w1"
        and "calls_for (row_id r) w' = calls_for (row_id r) w1"
      using for_items_untouched [OF conn sends, of "row_id r" rest n "Suc k" w1] by blast
    then show ?thesis
      using step rows calls by auto
  next
    case False
    then have mem: "r \<in> set rest" using Cons.prems(1) by simp
    then have ne: "row_id item \<noteq> row_id r"
      using Cons.prems(2) by auto
    have same: "rows_of (row_id r) w1 = rows_of (row_id r) w" "calls_for (row_id r) w1 = calls_for (row_id r) w"
      using process_item_untouched [OF ne, of e n "Suc k" w] w1 by simp_all
    have cfg: "isSupabaseConfigured (db w1)" "request_error (db w1) = None"
      using process_item_config [of e n "Suc k" item w] w1 Cons.prems(3,4) by simp_all
    have clk: "clock w \<le> clock w1"
      using process_item_clock [of w e n "Suc k" item] w1 by simp
    have dist: "distinct (map row_id rest)" using Cons.prems(2) by simp
    obtain w' t where "for_items e n (Suc k) rest w1 = (None, w')" and "clock w1 \<le> t"
        and "rows_of (row_id r) w' = map (apply_updates Sent None (Some t)) (rows_of (row_id r) w1)"
        and "calls_for (row_id r) w' = calls_for (row_id r) w1 @ [(row_id r, jid, Text (the (caption r)))]"
      using Cons.IH [OF mem dist cfg, of "Suc k"] by blast
    then show ?thesis
      using step same clk by (auto intro: order_trans)
  qed
qed

lemma filter_distinct_id:
  "distinct (map row_id rows) \<Longrightarrow> r \<in> set rows \<Longrightarrow> filter (\<lambda>x. row_id x = row_id r) rows = [r]"
proof (induction rows)
  case Nil
  then show ?case by simp
next
  case (Cons a rows)
  show ?case
  proof (cases "a = r")
    case True
    then have "row_id r \<notin> row_id ` set rows" using Cons.prems(1) by auto
    then have "filter (\<lambda>x. row_id x = row_id r) rows = []"
      by (auto simp: filter_empty_conv image_iff)
    with True show ?thesis by simp
  next
    case False
    then have "r \<in> set rows" using Cons.prems(2) by simp
    moreover have "row_id a \<noteq> row_id r"
      using Cons.prems(1) \<open>r \<in> set rows\<close> by auto
    ultimately show ?thesis using Cons by simp
  qed
qed

lemma apply_updates_sent:
  "apply_updates Sent None (Some t) r = r\<lparr>status := Sent, sent_at := Some t\<rparr>"
  by (simp add: apply_updates_def)

text \<open>
  What holds when every send of the run succeeds. On a transport that stays connected
  and accepts the messages, a run of the worker that finds the flag clear and the store
  available takes a pending row that is due, has a phone number of at least ten digits
  as recipient, a caption and no media, to status sent, with \<open>sent_at\<close> the clock
  reading at the moment of the update; the transport is called once for it, with the
  caption as plain text.
\<close>

lemma text_item_sent_once:
  assumes "\<And>k. connected e k" and "\<And>k jid p. sendMessage e k jid p = None"
    and "\<not> sendingInProgress w"
    and "isSupabaseConfigured (db w)" and "request_error (db w) = None"
    and "distinct (map row_id (schedule (db w)))"
    and "r \<in> set (schedule (db w))" and "status r = Pending" and "send_at r \<le> clock w"
    and "\<not> str_includes (recipient r) ''@g.us''" and "10 \<le> length (filter is_digit (recipient r))"
    and "truthy (caption r)" and "\<not> hasMedia r"
  shows "\<exists>t. clock w \<le> t
           \<and> rows_of (row_id r) (processQueue e w) = [r\<lparr>status := Sent, sent_at := Some t\<rparr>]
           \<and> calls_for (row_id r) (processQueue e w)
               = calls_for (row_id r) w
                 @ [(row_id r, jidNormalizedUser e (filter is_digit (recipient r) @ ''@s.whatsapp.net''),
                     Text (the (caption r)))]"
proof -
  let ?jid = "jidNormalizedUser e (filter is_digit (recipient r) @ ''@s.whatsapp.net'')"
  let ?due = "filter (\<lambda>x. status x = Pending \<and> send_at x \<le> clock w) (schedule (db w))"
  let ?w1 = "w\<lparr>sendingInProgress := True\<rparr>"
  have jid: "resolve_jid e r = Some ?jid"
    using assms(10,11) by (simp add: resolve_jid_phone)
  have due: "getDueScheduleItems (db w) (clock w) = (?due, db w)"
    using assms(4,5) by (simp add: getDueScheduleItems_def select_schedule_def)
  have mem: "r \<in> set ?due" using assms(7,8,9) by simp
  have nonempty: "?due \<noteq> []"
    by (metis mem empty_iff empty_set)
  have dist: "distinct (map row_id ?due)"
    using assms(6) by (simp add: distinct_map_filter)
  obtain w' t where loop: "for_items e (length ?due) 0 ?due ?w1 = (None, w')" and t: "clock ?w1 \<le> t"
      and rows: "rows_of (row_id r) w' = map (apply_updates Sent None (Some t)) (rows_of (row_id r) ?w1)"
      and calls: "calls_for (row_id r) w' = calls_for (row_id r) ?w1 @ [(row_id r, ?jid, Text (the (caption r)))]"
    using for_items_text_sent [OF assms(1,2) jid assms(13,12) mem dist, of ?w1 "length ?due" 0] assms(4,5)
    by auto
  have result: "processQueue e w
      = w'\<lparr>events := events w' @ [QueueUpdate (length (fst (getPendingSchedule (db w'))))],
            sendingInProgress := False\<rparr>"
    using assms(1,3,4) due nonempty loop
    by (simp add: processQueue_def Let_def case_prod_beta)
  have "rows_of (row_id r) w = [r]"
    using assms(6,7) by (simp add: rows_of_def filter_distinct_id)
  then have "rows_of (row_id r) (processQueue e w) = [r\<lparr>status := Sent, sent_at := Some t\<rparr>]"
    using rows by (simp add: result rows_of_def apply_updates_sent)
  moreover have "calls_for (row_id r) (processQueue e w)
       = calls_for (row_id r) w @ [(row_id r, ?jid, Text (the (caption r)))]"
    using calls by (simp add: result calls_for_def)
  ultimately show ?thesis using t by auto
qed

lemma text_item_sent_once_example:
  "(\<forall>k. connected sample_env k) \<and> (\<forall>k jid p. sendMessage sample_env k jid p = None)
   \<and> \<not> sendingInProgress (sample_world [text_row] [])
   \<and> isSupabaseConfigured (db (sample_world [text_row] []))
   \<and> request_error (db (sample_world [text_row] [])) = None
   \<and> distinct (map row_id (schedule (db (sample_world [text_row] []))))
   \<and> text_row \<in> set (schedule (db (sample_world [text_row] [])))
   \<and> status text_row = Pending \<and> send_at text_row \<le> clock (sample_world [text_row] [])
   \<and> \<not> str_includes (recipient text_row) ''@g.us''
   \<and> 10 \<le> length (filter is_digit (recipient text_row))
   \<and> truthy (caption text_row) \<and> \<not> hasMedia text_row
   \<and> (\<exists>t. clock (sample_world [text_row] []) \<le> t
          \<and> rows_of (row_id text_row) (processQueue sample_env (sample_world [text_row] []))
               = [text_row\<lparr>status := Sent, sent_at := Some t\<rparr>])
   \<and> schedule (db (processQueue sample_env (sample_world [text_row] [])))
        = [text_row\<lparr>status := Sent, sent_at := Some 10000\<rparr>]
   \<and> transport_log (processQueue sample_env (sample_world [text_row] []))
        = [(1, ''94770000000@s.whatsapp.net'', Text ''hi'')]"
proof -
  have c: "\<And>k. connected sample_env k" by (simp add: sample_env_def)
  have s: "\<And>k jid p. sendMessage sample_env k jid p = None" by (simp add: sample_env_def)
  have f: "\<not> sendingInProgress (sample_world [text_row] [])" by (simp add: sample_world_def)
  have d1: "isSupabaseConfigured (db (sample_world [text_row] []))" by (simp add: sample_world_def sample_db_def)
  have d2: "request_error (db (sample_world [text_row] [])) = None" by (simp add: sample_world_def sample_db_def)
  have d3: "distinct (map row_id (schedule (db (sample_world [text_row] []))))"
    by (simp add: sample_world_def sample_db_def)
  have m: "text_row \<in> set (schedule (db (sample_world [text_row] [])))"
    by (simp add: sample_world_def sample_db_def)
  have p: "status text_row = Pending" by (simp add: text_row_def sample_row_def)
  have due: "send_at text_row \<le> clock (sample_world [text_row] [])"
    by (simp add: text_row_def sample_row_def sample_world_def)
  have g: "\<not> str_includes (recipient text_row) ''@g.us''" by code_simp
  have l: "10 \<le> length (filter is_digit (recipient text_row))" by code_simp
  have cap: "truthy (caption text_row)" by code_simp
  have nm: "\<not> hasMedia text_row" by code_simp
  have main: "\<exists>t. clock (sample_world [text_row] []) \<le> t
          \<and> rows_of (row_id text_row) (processQueue sample_env (sample_world [text_row] []))
               = [text_row\<lparr>status := Sent, sent_at := Some t\<rparr>]"
    using text_item_sent_once [OF c s f d1 d2 d3 m p due g l cap nm] by blast
  have v1: "schedule (db (processQueue sample_env (sample_world [text_row] [])))
        = [text_row\<lparr>status := Sent, sent_at := Some 10000\<rparr>]"
    by code_simp
  have v2: "transport_log (processQueue sample_env (sample_world [text_row] []))
        = [(1, ''94770000000@s.whatsapp.net'', Text ''hi'')]"
    by code_simp
  show ?thesis
    using c s f d1 d2 d3 m p due g l cap nm main v1 v2 by blast
qed

lemma process_item_flag:
  "sendingInProgress (world_of (process_item e n k item w)) = sendingInProgress w"
  by (simp add: process_item_def dispatch_def Let_def fail_item_simps after_send_simps send_failed_simps
           split: option.splits)

lemma for_items_states_nonempty: "for_items_states e n k items w \<noteq> []"
  by (cases items) simp_all

lemma for_items_states_hd: "hd (for_items_states e n k items w) = w"
  by (cases items) simp_all

lemma for_items_states_last:
  "last (for_items_states e n k items w) = snd (for_items e n k items w)"
proof (induction items arbitrary: k w)
  case Nil
  then show ?case by simp
next
  case (Cons item rest)
  show ?case
  proof (cases "process_item e n (Suc k) item w")
    case (Continue w')
    then show ?thesis
      using Cons.IH [of "Suc k" w'] for_items_states_nonempty [of e n "Suc k" rest w'] by simp
  next
    case (Break w')
    then show ?thesis by simp
  next
    case (Throw err w')
    then show ?thesis by simp
  qed
qed

lemma for_items_states_flag:
  "s \<in> set (for_items_states e n k items w) \<Longrightarrow> sendingInProgress s = sendingInProgress w"
proof (induction items arbitrary: k w)
  case Nil
  then show ?case by simp
next
  case (Cons item rest)
  have step: "sendingInProgress (world_of (process_item e n (Suc k) item w)) = sendingInProgress w"
    by (rule process_item_flag)
  show ?case
  proof (cases "process_item e n (Suc k) item w")
    case (Continue w')
    then show ?thesis
      using Cons.prems Cons.IH [of "Suc k" w'] step by auto
  next
    case (Break w')
    then show ?thesis using Cons.prems step by auto
  next
    case (Throw err w')
    then show ?thesis using Cons.prems step by auto
  qed
qed

text \<open>
  Claim C2. A call of the worker in a world whose flag is set changes nothing: the store,
  the file system, the transport calls and the events are what they were. A run that
  passes the guards sets the flag before the loop, no step of the loop writes it, and so
  the flag is set in every world the run passes through: a second call that begins
  anywhere during the run is such a no-op. The result of the run is its last world with
  the flag cleared (and the queue-size event, when the loop ended without an exception),
  so every run that finds the flag clear ends with it clear, also when the loop was left
  by an exception, and the next call can run.
\<close>

theorem processQueue_single_flight:
  "(sendingInProgress w \<longrightarrow> processQueue e w = w)
   \<and> (\<forall>s \<in> set (processQueue_states e w). sendingInProgress s \<and> processQueue e' s = s)
   \<and> (connected e 0 \<and> \<not> sendingInProgress w \<and> isSupabaseConfigured (db w) \<longrightarrow>
         processQueue_states e w \<noteq> []
       \<and> hd (processQueue_states e w) = w\<lparr>sendingInProgress := True\<rparr>
       \<and> processQueue e w
           = (last (processQueue_states e w))\<lparr>events := events (processQueue e w),
                                              sendingInProgress := False\<rparr>)
   \<and> (\<not> sendingInProgress w \<longrightarrow> \<not> sendingInProgress (processQueue e w))
   \<and> sendingInProgress (world_of (process_item e n k item w)) = sendingInProgress w"
proof (intro conjI impI ballI)
  show noop: "processQueue e w = w" if "sendingInProgress w" for e w
    using that by (simp add: processQueue_def)
  show "\<not> sendingInProgress (processQueue e w)" if "\<not> sendingInProgress w"
    using that by (simp add: processQueue_def Let_def split: prod.splits option.splits)
  show "sendingInProgress (world_of (process_item e n k item w)) = sendingInProgress w"
    by (rule process_item_flag)
next
  fix s assume s: "s \<in> set (processQueue_states e w)"
  then have "sendingInProgress s"
    by (auto simp: processQueue_states_def Let_def case_prod_beta dest: for_items_states_flag
             split: if_splits)
  then show "sendingInProgress s" and "processQueue e' s = s"
    by (simp_all add: processQueue_def)
next
  assume h: "connected e 0 \<and> \<not> sendingInProgress w \<and> isSupabaseConfigured (db w)"
  let ?w1 = "w\<lparr>sendingInProgress := True\<rparr>"
  let ?due = "fst (getDueScheduleItems (db w) (clock w))"
  have states: "processQueue_states e w = for_items_states e (length ?due) 0 ?due ?w1"
    using h by (simp add: processQueue_states_def Let_def case_prod_beta)
  show "processQueue_states e w \<noteq> []"
    by (simp add: states for_items_states_nonempty)
  show "hd (processQueue_states e w) = ?w1"
    by (simp add: states for_items_states_hd)
  have last: "last (processQueue_states e w) = snd (for_items e (length ?due) 0 ?due ?w1)"
    by (simp add: states for_items_states_last)
  show "processQueue e w
           = (last (processQueue_states e w))\<lparr>events := events (processQueue e w),
                                              sendingInProgress := False\<rparr>"
  proof (cases "?due = []")
    case True
    then show ?thesis
      using h by (simp add: last processQueue_def Let_def case_prod_beta)
  next
    case False
    then show ?thesis
      using h
      by (cases "for_items e (length ?due) 0 ?due ?w1")
         (auto simp: last processQueue_def Let_def case_prod_beta split: option.splits)
  qed
qed


theorem processQueue_single_flight_witness:
  "sendingInProgress ((sample_world [text_row] [])\<lparr>sendingInProgress := True\<rparr>)
   \<and> processQueue sample_env ((sample_world [text_row] [])\<lparr>sendingInProgress := True\<rparr>)
        = (sample_world [text_row] [])\<lparr>sendingInProgress := True\<rparr>
   \<and> connected sample_env 0 \<and> \<not> sendingInProgress (sample_world [first_row, text_row] [])
   \<and> isSupabaseConfigured (db (sample_world [first_row, text_row] []))
   \<and> world_of (process_item sample_env 2 1 first_row ((sample_world [first_row, text_row] [])\<lparr>sendingInProgress := True\<rparr>))
        \<in> set (processQueue_states sample_env (sample_world [first_row, text_row] []))
   \<and> sendingInProgress (world_of (process_item sample_env 2 1 first_row
        ((sample_world [first_row, text_row] [])\<lparr>sendingInProgress := True\<rparr>)))
   \<and> map status (schedule (db (world_of (process_item sample_env 2 1 first_row
        ((sample_world [first_row, text_row] [])\<lparr>sendingInProgress := True\<rparr>))))) = [Sent, Pending]
   \<and> processQueue sample_env (world_of (process_item sample_env 2 1 first_row
        ((sample_world [first_row, text_row] [])\<lparr>sendingInProgress := True\<rparr>)))
        = world_of (process_item sample_env 2 1 first_row
            ((sample_world [first_row, text_row] [])\<lparr>sendingInProgress := True\<rparr>))
   \<and> map status (schedule (db (processQueue sample_env (sample_world [first_row, text_row] []))))
        = [Sent, Sent]
   \<and> map fst (transport_log (processQueue sample_env (sample_world [first_row, text_row] []))) = [2, 1]
   \<and> \<not> sendingInProgress (processQueue sample_env (sample_world [first_row, text_row] []))
   \<and> \<not> sendingInProgress (sample_world [text_row] [])
   \<and> fst (for_items timeout_env 1 0 [text_row] ((sample_world [text_row] [])\<lparr>sendingInProgress := True\<rparr>))
        = Some ''db.incrementRetryCount is not a function''
   \<and> \<not> sendingInProgress (processQueue timeout_env (sample_world [text_row] []))
   \<and> map status (schedule (db (processQueue sample_env (processQueue timeout_env (sample_world [text_row] [])))))
        = [Sent]"
proof -
  let ?WA = "(sample_world [text_row] [])\<lparr>sendingInProgress := True\<rparr>"
  let ?W2 = "sample_world [first_row, text_row] []"
  let ?S1 = "world_of (process_item sample_env 2 1 first_row (?W2\<lparr>sendingInProgress := True\<rparr>))"
  let ?W1 = "sample_world [text_row] []"
  have a: "sendingInProgress ?WA" by (simp add: sample_world_def)
  have b: "connected sample_env 0 \<and> \<not> sendingInProgress ?W2 \<and> isSupabaseConfigured (db ?W2)"
    by (simp add: sample_env_def sample_world_def sample_db_def)
  have due: "getDueScheduleItems (db ?W2) (clock ?W2) = ([first_row, text_row], db ?W2)"
    by (simp add: getDueScheduleItems_def select_schedule_def sample_world_def sample_db_def
                  first_row_def text_row_def sample_row_def)
  have states: "processQueue_states sample_env ?W2
                  = for_items_states sample_env 2 0 [first_row, text_row] (?W2\<lparr>sendingInProgress := True\<rparr>)"
    using b due by (simp add: processQueue_states_def numeral_2_eq_2 Let_def)
  obtain s1 where cont: "process_item sample_env 2 (Suc 0) first_row (?W2\<lparr>sendingInProgress := True\<rparr>) = Continue s1"
    using process_item_continues [of sample_env "Suc 0" 2 first_row "?W2\<lparr>sendingInProgress := True\<rparr>"]
    by (simp add: sample_env_def)
  have s1: "?S1 = s1" using cont by simp
  have "s1 \<in> set (processQueue_states sample_env ?W2)"
    unfolding states using cont by simp
  then have mem: "?S1 \<in> set (processQueue_states sample_env ?W2)"
    by (simp only: s1)
  have flag: "sendingInProgress ?S1"
    using processQueue_single_flight [of ?W2 sample_env sample_env] mem by blast
  have noop: "processQueue sample_env ?S1 = ?S1"
    using processQueue_single_flight [of ?W2 sample_env sample_env] mem by blast
  have pend: "map status (schedule (db ?S1)) = [Sent, Pending]" by code_simp
  have fin: "map status (schedule (db (processQueue sample_env ?W2))) = [Sent, Sent]" by code_simp
  have log: "map fst (transport_log (processQueue sample_env ?W2)) = [2, 1]" by code_simp
  have rel: "\<not> sendingInProgress (processQueue sample_env ?W2)"
    using processQueue_single_flight [of ?W2 sample_env] b by blast
  have c: "\<not> sendingInProgress ?W1" by (simp add: sample_world_def)
  have thrown: "fst (for_items timeout_env 1 0 [text_row] ?WA) = Some ''db.incrementRetryCount is not a function''"
    by code_simp
  have rel2: "\<not> sendingInProgress (processQueue timeout_env ?W1)"
    using processQueue_single_flight [of ?W1 timeout_env] c by blast
  have next_run: "map status (schedule (db (processQueue sample_env (processQueue timeout_env ?W1)))) = [Sent]"
    by code_simp
  have noopA: "processQueue sample_env ?WA = ?WA"
    using processQueue_single_flight [of ?WA sample_env] a by blast
  show ?thesis
    using a noopA b mem flag pend noop fin log rel c thrown rel2 next_run by blast
qed

text \<open>
  Claim C9 at a failing input: the transport is connected and would accept the message
  of the item, but an item earlier in the same run is rejected with "Request timeout".
  The \<^verbatim>\<open>TypeError\<close> of the missing \<^verbatim>\<open>db.incrementRetryCount\<close> leaves the loop before the
  item is reached: it stays pending without \<open>sent_at\<close>, and no transport call is made
  for it, in this run and in every later run in which the earlier item times out again.
\<close>

theorem text_item_blocked_by_earlier_timeout:
  "connected flaky_env 0 \<and> connected flaky_env 1 \<and> connected flaky_env 2
   \<and> sendMessage flaky_env 2 ''94770000000@s.whatsapp.net'' (Text ''hi'') = None
   \<and> text_row \<in> set (schedule (db (sample_world [first_row, text_row] [])))
   \<and> status text_row = Pending
   \<and> send_at text_row \<le> clock (sample_world [first_row, text_row] [])
   \<and> \<not> str_includes (recipient text_row) ''@g.us''
   \<and> 10 \<le> length (filter is_digit (recipient text_row))
   \<and> caption text_row = Some ''hi'' \<and> \<not> hasMedia text_row
   \<and> rows_of 1 (processQueue flaky_env (sample_world [first_row, text_row] [])) = [text_row]
   \<and> sent_at text_row = None
   \<and> calls_for 1 (processQueue flaky_env (sample_world [first_row, text_row] [])) = []
   \<and> transport_log (processQueue flaky_env (sample_world [first_row, text_row] []))
        = [(2, ''94771111111@s.whatsapp.net'', Text ''first'')]
   \<and> rows_of 1 (processQueue flaky_env (processQueue flaky_env (sample_world [first_row, text_row] [])))
        = [text_row]
   \<and> calls_for 1 (processQueue flaky_env (processQueue flaky_env (sample_world [first_row, text_row] [])))
        = []"
  by code_simp

text \<open>A retryable failure never reaches the retry branches: the call of the missing
  store operation throws first.\<close>

lemma retryable_send_throws:
  "isRetryableError m \<Longrightarrow> send_failed item m w = Throw ''db.incrementRetryCount is not a function'' w"
  by (simp add: send_failed_def incrementRetryCount_def)

text \<open>
  Claim C1 at a failing input: a due text item on a transport that rejects every send
  with "Request timeout", a retryable error. Each run calls the transport once and
  then leaves the loop by the \<^verbatim>\<open>TypeError\<close> of the missing \<^verbatim>\<open>db.incrementRetryCount\<close>;
  after four runs (max + 1) the row is what it was: pending, without an error, the retry
  counter at zero.
\<close>

theorem retry_never_recorded:
  "isRetryableError ''Request timeout''
   \<and> schedule (db (processQueue timeout_env (sample_world [text_row] []))) = [text_row]
   \<and> schedule (db (processQueue timeout_env (processQueue timeout_env
        (processQueue timeout_env (processQueue timeout_env (sample_world [text_row] []))))))
        = [text_row]
   \<and> length (transport_log (processQueue timeout_env (processQueue timeout_env
        (processQueue timeout_env (processQueue timeout_env (sample_world [text_row] [])))))) = 4
   \<and> status text_row = Pending \<and> error text_row = None \<and> retry_count text_row = 0
   \<and> events (processQueue timeout_env (sample_world [text_row] [])) = []"
  by code_simp

section \<open>Properties of the birthday check\<close>

text \<open>
  Claim C4 at a failing input: a birthday entry for tomorrow with the custom message
  "Many happy returns!" and an empty schedule. The first check enqueues one row, due
  123 milliseconds after local midnight (the milliseconds of the clock are kept); the
  caption does not contain "birthday", so the second check does not recognise the row
  and enqueues a second one.
\<close>

theorem birthday_enqueued_twice:
  "fst (getBirthdaysByDate (db birthday_world) ''11-04'') = [custom_birthday]
   \<and> schedule (db birthday_world) = []
   \<and> map recipient (schedule (db (checkBirthdays sample_env birthday_world))) = [''94770000001'']
   \<and> map caption (schedule (db (checkBirthdays sample_env birthday_world))) = [Some ''Many happy returns!'']
   \<and> map send_at (schedule (db (checkBirthdays sample_env birthday_world))) = [1793730600123]
   \<and> (local_day (clock birthday_world) + 1) * ms_per_day - tz_offset_ms = 1793730600000
   \<and> map recipient (schedule (db (checkBirthdays sample_env (checkBirthdays sample_env birthday_world))))
        = [''94770000001'', ''94770000001'']
   \<and> map status (schedule (db (checkBirthdays sample_env (checkBirthdays sample_env birthday_world))))
        = [Pending, Pending]"
  by code_simp

section \<open>Properties of the media sweep\<close>

lemma split_on_no_sep: "c \<notin> set s \<Longrightarrow> split_on c s = [s]"
  by (induction s) auto

lemma path_join_entry:
  assumes "entry_name n"
  shows "path_join [UPLOADS_DIR, n] = UPLOADS_DIR @ ''/'' @ n"
proof -
  from assms have n: "n \<noteq> []" "CHR ''/'' \<notin> set n" "n \<noteq> ''.''" "n \<noteq> ''..''"
    by (simp_all add: entry_name_def)
  have last: "last n \<noteq> CHR ''/''"
    using n(1,2) last_in_set by metis
  have segs: "split_on CHR ''/'' (''/app/public/uploads/'' @ n) = [[], ''app'', ''public'', ''uploads'', n]"
    using n(2) by (simp add: split_on_no_sep)
  have norm: "normalizeString (''/app/public/uploads/'' @ n) False = ''app/public/uploads/'' @ n"
    unfolding normalizeString_def segs using n(1,3,4) by simp
  show ?thesis
    using n(1) last norm
    by (simp add: path_join_def UPLOADS_DIR_eq path_normalize_def Let_def)
qed

lemma map_of_unlink:
  "map_of (filter (\<lambda>(q, _). q \<noteq> p) f) q' = (if q' = p then None else map_of f q')"
  by (induction f) auto

lemma fsp_unlink_map_of:
  "fsp_unlink f p = Inr f' \<Longrightarrow> map_of f' q = (if q = p then None else map_of f q)"
  by (auto simp: fsp_unlink_def map_of_unlink split: option.splits fs_entry.splits)

lemma sweep_files_keeps:
  assumes "\<And>x. x \<in> set files \<Longrightarrow> x \<noteq> ''.gitkeep'' \<Longrightarrow> x \<notin> set active
             \<Longrightarrow> path_join [UPLOADS_DIR, x] \<noteq> q"
  shows "map_of (snd (sweep_files active oneDayAgo files f)) q = map_of f q"
  using assms
proof (induction files arbitrary: f)
  case Nil
  then show ?case by simp
next
  case (Cons x xs)
  have rest: "map_of (snd (sweep_files active oneDayAgo xs g)) q = map_of g q" for g
    using Cons by simp
  show ?case
  proof (cases "x = ''.gitkeep''")
    case True
    then show ?thesis using rest by simp
  next
    case False
    show ?thesis
    proof (cases "fsp_stat f (path_join [UPLOADS_DIR, x])")
      case (Inl err)
      then show ?thesis using False by simp
    next
      case (Inr mtime)
      show ?thesis
      proof (cases "mtime < oneDayAgo \<and> x \<notin> set active")
        case True
        then have ne: "path_join [UPLOADS_DIR, x] \<noteq> q"
          using Cons.prems [of x] False by simp
        show ?thesis
        proof (cases "fsp_unlink f (path_join [UPLOADS_DIR, x])")
          case (Inl err)
          then show ?thesis using False Inr True rest by simp
        next
          case (Inr f')
          then have "map_of f' q = map_of f q"
            using fsp_unlink_map_of [OF Inr, of q] ne by simp
          then show ?thesis
            using False \<open>fsp_stat f (path_join [UPLOADS_DIR, x]) = Inr mtime\<close> True Inr rest by simp
        qed
      next
        case no: False
        then show ?thesis using False Inr rest by auto
      qed
    qed
  qed
qed

lemma in_set_map_filter:
  "y \<in> set (List.map_filter g xs) \<longleftrightarrow> (\<exists>x \<in> set xs. g x = Some y)"
  by (induction xs) (auto split: option.splits)

lemma child_name_Some:
  assumes "child_name dir p = Some n"
  shows "p = dir @ ''/'' @ n" and "entry_name n"
proof -
  from assms have pre: "take (length dir + 1) p = dir @ ''/''"
      and n: "n = drop (length dir + 1) p" and "entry_name (drop (length dir + 1) p)"
    by (auto simp: child_name_def startsWith_def split: if_splits)
  then show "entry_name n" by simp
  have "p = take (length dir + 1) p @ drop (length dir + 1) p" by simp
  then show "p = dir @ ''/'' @ n" using pre n by (metis append.assoc)
qed

lemma fsp_readdir_entries:
  assumes "fsp_readdir f dir = Inr files"
  shows "distinct files" and "\<And>n. n \<in> set files \<Longrightarrow> entry_name n \<and> map_of f (dir @ ''/'' @ n) \<noteq> None"
proof -
  from assms have files: "files = remdups (List.map_filter (\<lambda>(p, _). child_name dir p) f)"
    by (auto simp: fsp_readdir_def split: option.splits fs_entry.splits)
  then show "distinct files" by simp
  fix n assume "n \<in> set files"
  then obtain p e where pe: "(p, e) \<in> set f" and c: "child_name dir p = Some n"
    using files by (auto simp: in_set_map_filter)
  from c have "p = dir @ ''/'' @ n" and en: "entry_name n"
    by (rule child_name_Some)+
  moreover have "map_of f p \<noteq> None"
    using pe by (metis map_of_eq_None_iff fst_conv image_eqI)
  ultimately show "entry_name n \<and> map_of f (dir @ ''/'' @ n) \<noteq> None" by simp
qed

lemma active_referenced:
  assumes "isSupabaseConfigured d" and "request_error d = None"
  shows "(f \<in> set (activeMediaFiles (fst (getPendingSchedule d)))) = referenced d f"
  using assms
  by (auto simp: activeMediaFiles_def getPendingSchedule_def select_schedule_def referenced_def
                 list_ex_iff in_set_map_filter image_iff split: option.splits)

lemma cleanup_fs:
  assumes "isSupabaseConfigured (db w)" and "fsp_readdir (fs w) UPLOADS_DIR = Inr files"
  shows "fs (cleanupOldMediaFiles w)
           = snd (sweep_files (activeMediaFiles (fst (getPendingSchedule (db w))))
                    (clock w - 24 * 60 * 60 * 1000) files (fs w))"
  using assms by (simp add: cleanupOldMediaFiles_def Let_def case_prod_beta)

text \<open>When the store is configured and answers the query for the pending rows, the sweep
  keeps every listed file whose name is the base name of the media of a pending row, if the
  URL does not start with \<^verbatim>\<open>http\<close>; the sentinel is kept in every case.\<close>

lemma sweep_keeps_referenced:
  assumes cfg: "isSupabaseConfigured (db w)" and ok: "request_error (db w) = None"
    and dir: "fsp_readdir (fs w) UPLOADS_DIR = Inr files" and mem: "f \<in> set files"
    and ref: "referenced (db w) f"
  shows "map_of (fs (cleanupOldMediaFiles w)) (UPLOADS_DIR @ ''/'' @ f)
           = map_of (fs w) (UPLOADS_DIR @ ''/'' @ f)"
proof -
  have names: "entry_name x" if "x \<in> set files" for x
    using that fsp_readdir_entries(2) [OF dir, of x] by simp
  have act: "f \<in> set (activeMediaFiles (fst (getPendingSchedule (db w))))"
    using ref active_referenced [OF cfg ok, of f] by simp
  have "path_join [UPLOADS_DIR, x] \<noteq> UPLOADS_DIR @ ''/'' @ f"
    if "x \<in> set files" and "x \<notin> set (activeMediaFiles (fst (getPendingSchedule (db w))))" for x
    using that act names [of x] by (auto simp: path_join_entry)
  then show ?thesis
    unfolding cleanup_fs [OF cfg dir] by (intro sweep_files_keeps) simp
qed

lemma sweep_keeps_gitkeep:
  "map_of (fs (cleanupOldMediaFiles w)) (UPLOADS_DIR @ ''/'' @ ''.gitkeep'')
     = map_of (fs w) (UPLOADS_DIR @ ''/'' @ ''.gitkeep'')"
proof (cases "fsp_readdir (fs w) UPLOADS_DIR")
  case (Inl err)
  then show ?thesis by (simp add: cleanupOldMediaFiles_def)
next
  case (Inr files)
  show ?thesis
  proof (cases "isSupabaseConfigured (db w)")
    case False
    then show ?thesis by (simp add: cleanupOldMediaFiles_def split: sum.splits)
  next
    case True
    have "path_join [UPLOADS_DIR, x] \<noteq> UPLOADS_DIR @ ''/'' @ ''.gitkeep''"
      if "x \<in> set files" and "x \<noteq> ''.gitkeep''" for x
      using that fsp_readdir_entries(2) [OF Inr, of x] by (simp add: path_join_entry)
    then show ?thesis
      unfolding cleanup_fs [OF True Inr] by (intro sweep_files_keeps) simp
  qed
qed

text \<open>
  Claim C5 at a failing input: the store is configured but its request for the pending
  rows fails, so \<^verbatim>\<open>getPendingSchedule\<close> returns no rows and the set of active names is
  empty. The file \<^verbatim>\<open>kept.png\<close>, which a pending row refers to and which the worker would
  read, is older than a day and is deleted; with the same rows and files and a request
  that succeeds it is kept. A second input: a dangling link listed before an old file
  nobody refers to makes \<^verbatim>\<open>stat\<close> reject, the sweep stops there, and the old file stays.
\<close>

theorem sweep_deletes_active_media:
  "local_media_row \<in> set (schedule (db outage_world))
   \<and> status local_media_row = Pending
   \<and> media_url local_media_row = Some ''/uploads/kept.png''
   \<and> path_basename ''/uploads/kept.png'' = ''kept.png''
   \<and> localOrHttp local_media_row = ''/app/public/uploads/kept.png''
   \<and> isSupabaseConfigured (db outage_world)
   \<and> fst (getPendingSchedule (db outage_world)) = []
   \<and> map_of (fs outage_world) ''/app/public/uploads/kept.png'' = Some (File 1000 ''K'')
   \<and> map_of (fs (cleanupOldMediaFiles outage_world)) ''/app/public/uploads/kept.png'' = None
   \<and> map_of (fs (cleanupOldMediaFiles sweep_world)) ''/app/public/uploads/kept.png''
        = Some (File 1000 ''K'')
   \<and> map_of (fs (cleanupOldMediaFiles sweep_world)) ''/app/public/uploads/old.bin'' = None
   \<and> fsp_readdir (fs dangling_world) UPLOADS_DIR
        = Inr [''.gitkeep'', ''broken'', ''kept.png'', ''old.bin'', ''new.bin'', ''a.png'']
   \<and> \<not> referenced (db dangling_world) ''old.bin''
   \<and> map_of (fs (cleanupOldMediaFiles dangling_world)) ''/app/public/uploads/old.bin''
        = Some (File 1000 ''O'')"
  by code_simp

end
